theory Spec2Isabelle
  imports Complex_Main "HOL-Library.Char_ord" "HOL-Library.List_Lexorder"
begin

section \<open>Values exchanged with the backend\<close>

text \<open>
  The application is TypeScript; its casts (\<^verbatim>\<open>payload as HealthMetric\<close>,
  \<^verbatim>\<open>payload.data as HealthMetric[]\<close>) are erased at run time, so a reading held by
  the screen or the store is whatever JSON value arrived.  A JSON object is its list of
  members; \<^verbatim>\<open>JSON.parse\<close> leaves one member per key, and a member is looked up by
  \<open>map_of\<close>.  Numbers are rationals: the code only tests them for zero and equality.
\<close>

datatype json =
    JNull
  | JBool bool
  | JNum rat
  | JStr string
  | JArr "json list"
  | JObj "(string \<times> json) list"

text \<open>
  A thrown value: an instance of \<^verbatim>\<open>Error\<close> with its message, or the value the SQLite
  plugin rejects with (taken not to be an \<^verbatim>\<open>Error\<close> instance).
\<close>

datatype error = JsError string | SqlRejection

text \<open>The message of the TypeError raised by reading a property of \<^verbatim>\<open>null\<close>; its
  text depends on the JavaScript engine and is never inspected by the code.\<close>

definition null_property_message :: string where
  "null_property_message = ''Cannot read property of null''"

text \<open>\<^verbatim>\<open>v.k\<close>: throws on \<^verbatim>\<open>null\<close>, looks the member up in an object, and is
  \<^verbatim>\<open>undefined\<close> (\<open>None\<close>) on the other values for the keys used here.\<close>

fun getProp :: "json \<Rightarrow> string \<Rightarrow> error + json option" where
  "getProp JNull k = Inl (JsError null_property_message)"
| "getProp (JObj kvs) k = Inr (map_of kvs k)"
| "getProp v k = Inr None"

text \<open>\<^verbatim>\<open>v?.k\<close>: as above, but \<^verbatim>\<open>undefined\<close> on \<^verbatim>\<open>null\<close>.\<close>

fun optProp :: "json \<Rightarrow> string \<Rightarrow> json option" where
  "optProp (JObj kvs) k = map_of kvs k"
| "optProp v k = None"

text \<open>JavaScript truthiness of a value that came out of JSON.\<close>

fun truthy :: "json option \<Rightarrow> bool" where
  "truthy None = False"
| "truthy (Some JNull) = False"
| "truthy (Some (JBool b)) = b"
| "truthy (Some (JNum n)) = (n \<noteq> 0)"
| "truthy (Some (JStr s)) = (s \<noteq> [])"
| "truthy (Some (JArr xs)) = True"
| "truthy (Some (JObj kvs)) = True"

text \<open>The identity of a reading is its \<^verbatim>\<open>id\<close> member (the list key
  \<^verbatim>\<open>metric-${metric.id}\<close> of the screen, the primary key of the table).\<close>

definition ident :: "json \<Rightarrow> json option" where
  "ident m = optProp m ''id''"

text \<open>\<^verbatim>\<open>xs.slice(0, end)\<close> for an integer \<^verbatim>\<open>end\<close>: a negative end counts from
  the back.\<close>

definition slice0 :: "'a list \<Rightarrow> int \<Rightarrow> 'a list" where
  "slice0 xs e = (if e < 0 then take (nat (int (length xs) + e)) xs else take (nat e) xs)"

section \<open>The local metric store (metricsStore.ts)\<close>

text \<open>
  The module holds the handle \<^verbatim>\<open>db\<close> (\<open>None\<close> is \<^verbatim>\<open>null\<close>), the array
  \<^verbatim>\<open>memoryCache\<close>, and, through the SQLite plugin, the table \<^verbatim>\<open>metrics\<close> of the
  file \<^verbatim>\<open>metrics.db\<close> (\<open>None\<close> while the table does not exist).  Every method of the
  SQLite backend awaits the database and then each of its statements; between two of
  these awaits other handlers run, and statements of other calls are executed.  So a call
  on the SQLite backend is kept in the store as the steps it still has to take, and it
  advances one statement at a time.
\<close>

datatype backend = SqliteDb | MemoryDb

subsection \<open>The table and its statements\<close>

text \<open>
  A row has the integer key of the column \<^verbatim>\<open>id INTEGER PRIMARY KEY\<close> and the four other
  bound values.  SQLite's conversions of those four to the declared column types are not
  modelled (they change nothing on values of the declared \<^verbatim>\<open>HealthMetric\<close> type), and
  its keys, which are 64-bit, are unbounded integers here.
\<close>

record row =
  col_id :: int
  col_metric_type :: json
  col_value :: json
  col_unit :: json
  col_recorded_at :: json

text \<open>A bound parameter: \<^verbatim>\<open>undefined\<close> and \<^verbatim>\<open>null\<close> are SQL NULL.\<close>

definition bound :: "json option \<Rightarrow> json" where
  "bound v = (case v of None \<Rightarrow> JNull | Some x \<Rightarrow> x)"

text \<open>The parameter array
  \<^verbatim>\<open>[metric.id, metric.metric_type, metric.value, metric.unit ?? null, metric.recorded_at]\<close>;
  building it throws when the metric is \<^verbatim>\<open>null\<close>.\<close>

record parameters =
  p_id :: json
  p_metric_type :: json
  p_value :: json
  p_unit :: json
  p_recorded_at :: json

definition parameters_of :: "json \<Rightarrow> error + parameters" where
  "parameters_of m =
     (case getProp m ''id'' of
        Inl e \<Rightarrow> Inl e
      | Inr i \<Rightarrow>
          Inr \<lparr>p_id = bound i,
               p_metric_type = bound (optProp m ''metric_type''),
               p_value = bound (optProp m ''value''),
               p_unit = bound (optProp m ''unit''),
               p_recorded_at = bound (optProp m ''recorded_at'')\<rparr>)"

text \<open>
  What the primary key makes of the bound id: NULL asks for a fresh key, a number that
  is an integer is the key, and a number that is not an integer is refused (datatype
  mismatch).  An id that is text, a boolean, an array or an object is outside the declared
  type \<^verbatim>\<open>id: number\<close>; what the plugin binds it as, and so what SQLite makes of it,
  is left to the platform.
\<close>

datatype key = AutoKey | Key int | Mismatch | Foreign

fun key_of :: "json \<Rightarrow> key" where
  "key_of JNull = AutoKey"
| "key_of (JNum n) = (if of_int \<lfloor>n\<rfloor> = n then Key \<lfloor>n\<rfloor> else Mismatch)"
| "key_of v = Foreign"

definition with_id :: "int \<Rightarrow> parameters \<Rightarrow> row" where
  "with_id k p =
     \<lparr>col_id = k, col_metric_type = p_metric_type p, col_value = p_value p,
      col_unit = p_unit p, col_recorded_at = p_recorded_at p\<rparr>"

text \<open>The fresh key: one more than the largest key of the table, 1 in an empty table.\<close>

definition next_rowid :: "row list \<Rightarrow> int" where
  "next_rowid rows =
     (case rows of
        [] \<Rightarrow> 1
      | r # rs \<Rightarrow> fold (\<lambda>x k. max k (col_id x)) rs (col_id r) + 1)"

text \<open>\<^verbatim>\<open>INSERT OR REPLACE\<close> with a given key: a row with the same key is removed, the
  new row is added.\<close>

definition insert_or_replace :: "row \<Rightarrow> row list \<Rightarrow> row list" where
  "insert_or_replace r rows = filter (\<lambda>x. col_id x \<noteq> col_id r) rows @ [r]"

text \<open>\<^verbatim>\<open>rows.item(index)\<close>: a row read back as an object with the selected columns.\<close>

definition item :: "row \<Rightarrow> json" where
  "item r =
     JObj [(''id'', JNum (of_int (col_id r))), (''metric_type'', col_metric_type r),
           (''value'', col_value r), (''unit'', col_unit r),
           (''recorded_at'', col_recorded_at r)]"

text \<open>\<^verbatim>\<open>ORDER BY recorded_at DESC\<close>: NULL sorts below numbers, numbers below text, text
  by its bytes; rows with equal keys keep the order of the table.\<close>

fun sql_class :: "json \<Rightarrow> nat" where
  "sql_class JNull = 0"
| "sql_class (JNum n) = 1"
| "sql_class (JStr s) = 2"
| "sql_class v = 3"

fun sql_less :: "json \<Rightarrow> json \<Rightarrow> bool" where
  "sql_less (JNum a) (JNum b) = (a < b)"
| "sql_less (JStr a) (JStr b) = (a < b)"
| "sql_less a b = (sql_class a < sql_class b)"

fun insert_desc :: "row \<Rightarrow> row list \<Rightarrow> row list" where
  "insert_desc r [] = [r]"
| "insert_desc r (x # xs) =
     (if sql_less (col_recorded_at x) (col_recorded_at r) then r # x # xs
      else x # insert_desc r xs)"

definition order_by_recorded_at_desc :: "row list \<Rightarrow> row list" where
  "order_by_recorded_at_desc rows = foldl (\<lambda>acc r. insert_desc r acc) [] rows"

text \<open>\<^verbatim>\<open>LIMIT ?\<close>: a negative limit is no limit.\<close>

definition sql_limit :: "int \<Rightarrow> 'a list \<Rightarrow> 'a list" where
  "sql_limit n xs = (if n < 0 then xs else take (nat n) xs)"

text \<open>The rows a table holds; a table that does not exist holds none.\<close>

definition table_rows :: "row list option \<Rightarrow> row list" where
  "table_rows t = (case t of None \<Rightarrow> [] | Some rows \<Rightarrow> rows)"

text \<open>
  What the platform does while one step is taken: whether
  \<^verbatim>\<open>require('react-native-sqlite-storage')\<close>, \<^verbatim>\<open>enablePromise\<close> and
  \<^verbatim>\<open>openDatabase\<close> return (the \<^verbatim>\<open>try\<close> block of \<^verbatim>\<open>initMetricsDb\<close>
  completes), whether the promise of \<^verbatim>\<open>openDatabase\<close> resolves, whether the
  statement that is executed succeeds, and the key under which an id that is not a number
  is stored (\<open>None\<close> when it is refused).
\<close>

record env =
  sqlite_module :: bool
  db_opens :: bool
  sql_ok :: bool
  foreign_id :: "json \<Rightarrow> int option"

text \<open>The four statements of the backend.  The parameters of an insert are built from
  the metric when the statement is issued.\<close>

datatype stmt =
    CreateTable
  | DeleteAll
  | InsertOrReplace json
  | SelectLatest int

text \<open>
  \<^verbatim>\<open>await db.executeSql(...)\<close>: the value it resolves to (the objects of the selected
  rows, nothing for the other statements) or the error, and the table afterwards.  A
  statement other than \<^verbatim>\<open>CREATE TABLE IF NOT EXISTS\<close> fails on a missing table.
\<close>

fun exec :: "env \<Rightarrow> stmt \<Rightarrow> row list option \<Rightarrow> (error + json list) \<times> row list option" where
  "exec e CreateTable t =
     (if sql_ok e then (Inr [], Some (table_rows t)) else (Inl SqlRejection, t))"
| "exec e DeleteAll t =
     (if sql_ok e \<and> t \<noteq> None then (Inr [], Some []) else (Inl SqlRejection, t))"
| "exec e (InsertOrReplace m) t =
     (case parameters_of m of
        Inl err \<Rightarrow> (Inl err, t)
      | Inr p \<Rightarrow>
          if sql_ok e \<and> t \<noteq> None then
            (case key_of (p_id p) of
               Mismatch \<Rightarrow> (Inl SqlRejection, t)
             | AutoKey \<Rightarrow>
                 (Inr [], Some (table_rows t @ [with_id (next_rowid (table_rows t)) p]))
             | Key k \<Rightarrow> (Inr [], Some (insert_or_replace (with_id k p) (table_rows t)))
             | Foreign \<Rightarrow>
                 (case foreign_id e (p_id p) of
                    None \<Rightarrow> (Inl SqlRejection, t)
                  | Some k \<Rightarrow>
                      (Inr [], Some (insert_or_replace (with_id k p) (table_rows t)))))
          else (Inl SqlRejection, t))"
| "exec e (SelectLatest limit) t =
     (if sql_ok e \<and> t \<noteq> None then
        (Inr (map item (sql_limit limit (order_by_recorded_at_desc (table_rows t)))), t)
      else (Inl SqlRejection, t))"


subsection \<open>The SQLite backend (createSqliteDb)\<close>

text \<open>The awaits of a method, in order: \<^verbatim>\<open>await dbPromise\<close> and
  \<^verbatim>\<open>await db.executeSql(...)\<close>.\<close>

datatype step = AwaitDb | Exec stmt

definition sqlite_init :: "step list" where
  "sqlite_init = [AwaitDb, Exec CreateTable]"

definition sqlite_loadCachedMetrics :: "int \<Rightarrow> step list" where
  "sqlite_loadCachedMetrics limit = [AwaitDb, Exec (SelectLatest limit)]"

definition sqlite_storeMetrics :: "json list \<Rightarrow> step list" where
  "sqlite_storeMetrics ms = AwaitDb # Exec DeleteAll # map (\<lambda>m. Exec (InsertOrReplace m)) ms"

definition sqlite_addMetric :: "json \<Rightarrow> step list" where
  "sqlite_addMetric m = [AwaitDb, Exec (InsertOrReplace m)]"

text \<open>
  A call resumes: it passes the awaits of the opened database without letting anything
  in between, has its next statement executed, and is then suspended at the statement
  after it, resolved with the value of its last statement, or rejected.
\<close>

datatype progress = Suspended "step list" | Resolved "json list" | Rejected error

fun advance :: "env \<Rightarrow> step list \<Rightarrow> row list option \<Rightarrow> progress \<times> row list option" where
  "advance e [] t = (Resolved [], t)"
| "advance e (AwaitDb # rest) t =
     (if db_opens e then advance e rest t else (Rejected SqlRejection, t))"
| "advance e (Exec st # rest) t =
     (case exec e st t of
        (Inl err, t') \<Rightarrow> (Rejected err, t')
      | (Inr out, t') \<Rightarrow> (if rest = [] then (Resolved out, t') else (Suspended rest, t')))"

text \<open>The steps of a call taken one after the other, with nothing in between.\<close>

fun run_script :: "env \<Rightarrow> step list \<Rightarrow> row list option \<Rightarrow> (error + json list) \<times> row list option" where
  "run_script e [] t = (Inr [], t)"
| "run_script e (AwaitDb # rest) t =
     (if db_opens e then run_script e rest t else (Inl SqlRejection, t))"
| "run_script e (Exec st # rest) t =
     (case exec e st t of
        (Inl err, t') \<Rightarrow> (Inl err, t')
      | (Inr out, t') \<Rightarrow> (if rest = [] then (Inr out, t') else run_script e rest t'))"

subsection \<open>The state of the module\<close>

text \<open>
  Who awaits the promise of a call: nobody (the call was started and not awaited), the
  refresh of the screen at its \<^verbatim>\<open>await storeMetrics(latest)\<close> (with the length of
  the view it closed over), or the refresh at its \<^verbatim>\<open>await loadCachedMetrics(20)\<close>.
\<close>

datatype waiter = Detached | RefreshStore nat | RefreshLoad

record store =
  db :: "backend option"
  memoryCache :: "json list"
  metrics_table :: "row list option"
  in_flight :: "(waiter \<times> step list) list"

text \<open>What a caller holds after a call: a promise that is settled before any other handler
  runs, with its value or error, or one that is pending.\<close>

datatype promise = Pending | Settled "error + json list"

text \<open>The rows of the store's table.\<close>

definition stored_rows :: "store \<Rightarrow> row list" where
  "stored_rows s = table_rows (metrics_table s)"

subsection \<open>The memory backend (createMemoryDb)\<close>

text \<open>The methods of the memory backend contain no await: a call on it is complete
  before any other handler runs, and its \<^verbatim>\<open>init\<close> leaves nothing to wait for.\<close>

definition memory_init :: "step list" where
  "memory_init = []"

definition memory_loadCachedMetrics :: "int \<Rightarrow> store \<Rightarrow> json list" where
  "memory_loadCachedMetrics limit s = slice0 (memoryCache s) limit"

definition memory_storeMetrics :: "json list \<Rightarrow> store \<Rightarrow> store" where
  "memory_storeMetrics ms s = s\<lparr>memoryCache := ms\<rparr>"

definition memory_addMetric :: "json \<Rightarrow> store \<Rightarrow> store" where
  "memory_addMetric m s = s\<lparr>memoryCache := m # memoryCache s\<rparr>"

subsection \<open>The exported functions\<close>

definition backend_init :: "backend \<Rightarrow> step list" where
  "backend_init b = (case b of SqliteDb \<Rightarrow> sqlite_init | MemoryDb \<Rightarrow> memory_init)"

text \<open>A call with steps to take is put among the calls in flight; one with none is
  settled at once.\<close>

definition launch :: "waiter \<Rightarrow> step list \<Rightarrow> store \<Rightarrow> promise \<times> store" where
  "launch w script s =
     (if script = [] then (Settled (Inr []), s)
      else (Pending, s\<lparr>in_flight := in_flight s @ [(w, script)]\<rparr>))"

text \<open>
  \<^verbatim>\<open>initMetricsDb\<close> up to its \<^verbatim>\<open>await db.init()\<close>, with the steps of that
  \<^verbatim>\<open>init\<close>: with a handle it keeps the handle; without one it takes the SQLite backend
  when the module loads and the memory backend otherwise, and stores the handle at once.
\<close>

definition initMetricsDb_steps :: "env \<Rightarrow> store \<Rightarrow> step list \<times> store" where
  "initMetricsDb_steps e s =
     (case db s of
        Some b \<Rightarrow> (backend_init b, s)
      | None \<Rightarrow>
          (let b = (if sqlite_module e then SqliteDb else MemoryDb)
           in (backend_init b, s\<lparr>db := Some b\<rparr>)))"

definition initMetricsDb :: "env \<Rightarrow> waiter \<Rightarrow> store \<Rightarrow> promise \<times> store" where
  "initMetricsDb e w s = (case initMetricsDb_steps e s of (script, s1) \<Rightarrow> launch w script s1)"

text \<open>\<^verbatim>\<open>if (!db) { await initMetricsDb(); }\<close>: the steps the call has to take before it
  goes on.\<close>

definition ensure_db :: "env \<Rightarrow> store \<Rightarrow> step list \<times> store" where
  "ensure_db e s = (if db s = None then initMetricsDb_steps e s else ([], s))"

text \<open>
  \<^verbatim>\<open>return db?.loadCachedMetrics(limit) ?? []\<close>, after the steps \<open>pre\<close> of the
  awaited \<^verbatim>\<open>initMetricsDb\<close>.  On the memory backend there are none.
\<close>

definition loadCachedMetrics :: "env \<Rightarrow> waiter \<Rightarrow> int \<Rightarrow> store \<Rightarrow> promise \<times> store" where
  "loadCachedMetrics e w limit s =
     (case ensure_db e s of
        (pre, s1) \<Rightarrow>
          (case db s1 of
             None \<Rightarrow> (Settled (Inr []), s1)
           | Some MemoryDb \<Rightarrow> (Settled (Inr (memory_loadCachedMetrics limit s1)), s1)
           | Some SqliteDb \<Rightarrow> launch w (pre @ sqlite_loadCachedMetrics limit) s1))"

text \<open>\<^verbatim>\<open>await db?.storeMetrics(metrics)\<close>\<close>

definition storeMetrics :: "env \<Rightarrow> waiter \<Rightarrow> json list \<Rightarrow> store \<Rightarrow> promise \<times> store" where
  "storeMetrics e w ms s =
     (case ensure_db e s of
        (pre, s1) \<Rightarrow>
          (case db s1 of
             None \<Rightarrow> (Settled (Inr []), s1)
           | Some MemoryDb \<Rightarrow> (Settled (Inr []), memory_storeMetrics ms s1)
           | Some SqliteDb \<Rightarrow> launch w (pre @ sqlite_storeMetrics ms) s1))"

text \<open>\<^verbatim>\<open>await db?.addMetric(metric)\<close>\<close>

definition addMetric :: "env \<Rightarrow> waiter \<Rightarrow> json \<Rightarrow> store \<Rightarrow> promise \<times> store" where
  "addMetric e w m s =
     (case ensure_db e s of
        (pre, s1) \<Rightarrow>
          (case db s1 of
             None \<Rightarrow> (Settled (Inr []), s1)
           | Some MemoryDb \<Rightarrow> (Settled (Inr []), memory_addMetric m s1)
           | Some SqliteDb \<Rightarrow> launch w (pre @ sqlite_addMetric m) s1))"

subsection \<open>The database at work\<close>

text \<open>
  The call at position \<open>i\<close> among those in flight resumes.  It stays in flight when it
  is suspended again; when it is resolved or rejected it leaves, and its waiter and its
  result are handed back.  Which call resumes next is not fixed here.
\<close>

definition remove_nth :: "nat \<Rightarrow> 'a list \<Rightarrow> 'a list" where
  "remove_nth i xs = take i xs @ drop (Suc i) xs"

definition sql_step :: "env \<Rightarrow> nat \<Rightarrow> store \<Rightarrow> (waiter \<times> (error + json list)) option \<times> store" where
  "sql_step e i s =
     (if i < length (in_flight s) then
        (case in_flight s ! i of
           (w, script) \<Rightarrow>
             (case advance e script (metrics_table s) of
                (Suspended rest, t) \<Rightarrow>
                  (None, s\<lparr>metrics_table := t, in_flight := (in_flight s)[i := (w, rest)]\<rparr>)
              | (Resolved out, t) \<Rightarrow>
                  (Some (w, Inr out),
                   s\<lparr>metrics_table := t, in_flight := remove_nth i (in_flight s)\<rparr>)
              | (Rejected err, t) \<Rightarrow>
                  (Some (w, Inl err),
                   s\<lparr>metrics_table := t, in_flight := remove_nth i (in_flight s)\<rparr>)))
      else (None, s))"

subsection \<open>Calls of the module over the life of the process\<close>

text \<open>A call of one of the four exported functions by a caller that does not await it,
  or a step of the database, on the platform as it is at that moment, and the store it
  leaves; then a sequence of them.\<close>

datatype store_call =
    InitMetricsDb
  | LoadCachedMetrics int
  | StoreMetrics "json list"
  | AddMetric json
  | Statement nat

fun call :: "env \<Rightarrow> store_call \<Rightarrow> store \<Rightarrow> store" where
  "call e InitMetricsDb s = snd (initMetricsDb e Detached s)"
| "call e (LoadCachedMetrics limit) s = snd (loadCachedMetrics e Detached limit s)"
| "call e (StoreMetrics ms) s = snd (storeMetrics e Detached ms s)"
| "call e (AddMetric m) s = snd (addMetric e Detached m s)"
| "call e (Statement i) s = snd (sql_step e i s)"

fun calls :: "(env \<times> store_call) list \<Rightarrow> store \<Rightarrow> store" where
  "calls [] s = s"
| "calls ((e, c) # cs) s = calls cs (call e c s)"

text \<open>The calls that are calls of an exported function.\<close>

fun exported :: "store_call \<Rightarrow> bool" where
  "exported (Statement i) = False"
| "exported c = True"

section \<open>The remote fetcher (services/api.ts) and the join request\<close>

text \<open>
  What the single \<^verbatim>\<open>fetch\<close> call of a request comes to: it rejects (a network
  failure, with the message of the error), it resolves to a reply whose \<^verbatim>\<open>ok\<close>
  is false (with the text of the body and what \<^verbatim>\<open>JSON.parse\<close> makes of that text,
  \<open>None\<close> when it throws), or it resolves to a reply whose \<^verbatim>\<open>ok\<close> is true (with
  what \<^verbatim>\<open>response.json()\<close> gives: the message of its rejection, or the array the
  return type \<^verbatim>\<open>HealthMetric[]\<close> declares).
\<close>

datatype outcome =
    NetworkFailure string
  | HttpFailure string "json option"
  | HttpSuccess "string + json list"

text \<open>\<^verbatim>\<open>fetchLatestMetrics\<close>, from the outcome of its one \<^verbatim>\<open>fetch\<close>; the query
  parameters do not enter what it returns.\<close>

fun fetchLatestMetrics :: "outcome \<Rightarrow> error + json list" where
  "fetchLatestMetrics (NetworkFailure msg) = Inl (JsError msg)"
| "fetchLatestMetrics (HttpFailure detail parsed) =
     Inl (JsError (if detail = [] then ''Failed to fetch metrics'' else detail))"
| "fetchLatestMetrics (HttpSuccess (Inl msg)) = Inl (JsError msg)"
| "fetchLatestMetrics (HttpSuccess (Inr latest)) = Inr latest"

text \<open>
  The value \<^verbatim>\<open>requestToken\<close> (JoinRoomScreen) hands to \<^verbatim>\<open>new Error\<close> when the
  reply is not ok: the \<^verbatim>\<open>detail\<close> string of a JSON body, the \<^verbatim>\<open>msg\<close> of the
  first element of a \<^verbatim>\<open>detail\<close> array, and otherwise the text of the body or the
  generic message.
\<close>

definition requestToken_message :: "string \<Rightarrow> json option \<Rightarrow> json" where
  "requestToken_message rawMessage parsed =
     (let message = JStr (if rawMessage = [] then ''Unable to join the room.'' else rawMessage)
      in case parsed of
           None \<Rightarrow> message
         | Some data \<Rightarrow>
             (case optProp data ''detail'' of
                Some (JStr d) \<Rightarrow> JStr d
              | Some (JArr (x # xs)) \<Rightarrow>
                  (case optProp x ''msg'' of
                     None \<Rightarrow> message
                   | Some JNull \<Rightarrow> message
                   | Some v \<Rightarrow> v)
              | _ \<Rightarrow> message))"

section \<open>The live session screen (LiveSessionScreen.tsx)\<close>

datatype conn = Connecting | Connected | Disconnected | Error

datatype failure = PermissionDenied | NotFound | DeviceInUse | Other

text \<open>
  The state of the component, with the store of the module it writes to.  \<open>fetching\<close>
  holds, for every call of \<^verbatim>\<open>loadMetrics\<close> whose fetch has not settled yet, the
  \<^verbatim>\<open>metrics.length\<close> that call closed over.
\<close>

record screen =
  connectionState :: conn
  errorMessage :: "string option"
  mediaErrorMessage :: "string option"
  metrics :: "json list"
  metricsError :: "string option"
  metricsLoading :: bool
  connectKey :: nat
  fetching :: "nat list"
  metricsStore :: store

definition initial_screen :: "store \<Rightarrow> screen" where
  "initial_screen st =
     \<lparr>connectionState = Connecting, errorMessage = None, mediaErrorMessage = None,
      metrics = [], metricsError = None, metricsLoading = False, connectKey = 0,
      fetching = [], metricsStore = st\<rparr>"

subsection \<open>Metrics: the refresh\<close>

text \<open>\<^verbatim>\<open>err instanceof Error ? err.message : 'Unable to load metrics.'\<close>\<close>

fun error_message :: "error \<Rightarrow> string" where
  "error_message (JsError msg) = msg"
| "error_message SqlRejection = ''Unable to load metrics.''"

text \<open>
  \<^verbatim>\<open>loadMetrics\<close> is an async function that nobody awaits.  It is given here by the
  pieces between its awaits, each of which runs with no other handler in between: first
  the piece up to \<^verbatim>\<open>await fetchLatestMetrics(accessToken, 20)\<close>.  The callback is
  built again whenever \<^verbatim>\<open>metrics.length\<close> changes (its dependency list is
  \<^verbatim>\<open>[accessToken, metrics.length]\<close>), so the length it closed over is the length of
  the view at the moment of the call; the call keeps that number while its fetch is in
  flight, in \<open>fetching\<close>.
\<close>

definition loadMetrics :: "string option \<Rightarrow> screen \<Rightarrow> screen" where
  "loadMetrics accessToken s =
     (if accessToken = None \<or> accessToken = Some [] then s
      else s\<lparr>metricsLoading := True, metricsError := None,
             fetching := fetching s @ [length (metrics s)]\<rparr>)"

text \<open>After \<^verbatim>\<open>await loadCachedMetrics(20)\<close> in the \<^verbatim>\<open>catch\<close> block, then the
  \<^verbatim>\<open>finally\<close> block; an error of the load leaves the function there.\<close>

definition loaded :: "error + json list \<Rightarrow> screen \<Rightarrow> screen" where
  "loaded r s =
     (case r of
        Inl err \<Rightarrow> s\<lparr>metricsLoading := False\<rparr>
      | Inr cached \<Rightarrow>
          (if length cached > 0 then s\<lparr>metrics := cached\<rparr> else s)\<lparr>metricsLoading := False\<rparr>)"

text \<open>
  The \<^verbatim>\<open>catch\<close> block up to its await.  The \<^verbatim>\<open>metrics.length\<close> it tests is the
  length the callback closed over, whatever the view holds by now.
\<close>

definition loadMetrics_catch :: "env \<Rightarrow> nat \<Rightarrow> error \<Rightarrow> screen \<Rightarrow> screen" where
  "loadMetrics_catch e closed_length err s =
     (let s1 = s\<lparr>metricsError := Some (error_message err)\<rparr>
      in if closed_length = 0 then
           (case loadCachedMetrics e RefreshLoad 20 (metricsStore s1) of
              (Settled r, st) \<Rightarrow> loaded r (s1\<lparr>metricsStore := st\<rparr>)
            | (Pending, st) \<Rightarrow> s1\<lparr>metricsStore := st\<rparr>)
         else s1\<lparr>metricsLoading := False\<rparr>)"

text \<open>After \<^verbatim>\<open>await storeMetrics(latest)\<close>: the \<^verbatim>\<open>finally\<close> block, or the
  \<^verbatim>\<open>catch\<close> block when the store failed.\<close>

definition stored :: "env \<Rightarrow> nat \<Rightarrow> error + json list \<Rightarrow> screen \<Rightarrow> screen" where
  "stored e closed_length r s =
     (case r of
        Inl err \<Rightarrow> loadMetrics_catch e closed_length err s
      | Inr u \<Rightarrow> s\<lparr>metricsLoading := False\<rparr>)"

text \<open>
  The fetch of the call at position \<open>i\<close> of \<open>fetching\<close> settles with the outcome
  \<open>out\<close>: the piece of \<^verbatim>\<open>loadMetrics\<close> after
  \<^verbatim>\<open>await fetchLatestMetrics(accessToken, 20)\<close>, on the state as it is by then.
\<close>

definition fetched :: "env \<Rightarrow> nat \<Rightarrow> outcome \<Rightarrow> screen \<Rightarrow> screen" where
  "fetched e i out s =
     (if i < length (fetching s) then
        (let closed_length = fetching s ! i;
             s0 = s\<lparr>fetching := remove_nth i (fetching s)\<rparr>
         in case fetchLatestMetrics out of
              Inl err \<Rightarrow> loadMetrics_catch e closed_length err s0
            | Inr latest \<Rightarrow>
                (let s1 = s0\<lparr>metrics := latest\<rparr>
                 in case storeMetrics e (RefreshStore closed_length) latest (metricsStore s1) of
                      (Settled r, st) \<Rightarrow> stored e closed_length r (s1\<lparr>metricsStore := st\<rparr>)
                    | (Pending, st) \<Rightarrow> s1\<lparr>metricsStore := st\<rparr>))
      else s)"

text \<open>The promise of a call on the SQLite backend settles: whoever awaits it goes on.\<close>

fun resume :: "env \<Rightarrow> waiter \<Rightarrow> error + json list \<Rightarrow> screen \<Rightarrow> screen" where
  "resume e Detached r s = s"
| "resume e (RefreshStore closed_length) r s = stored e closed_length r s"
| "resume e RefreshLoad r s = loaded r s"


subsection \<open>Metrics: channel messages\<close>

text \<open>A frame of the socket, as \<^verbatim>\<open>JSON.parse(event.data)\<close> sees it: text it throws
  on, or text it parses to a value.\<close>

datatype frame = NotJson | Json json

definition json_syntax_message :: string where
  "json_syntax_message = ''JSON Parse error''"

text \<open>\<^verbatim>\<open>payload.type === 'snapshot' && Array.isArray(payload.data)\<close>, with the array.\<close>

definition snapshot_data :: "json \<Rightarrow> json list option" where
  "snapshot_data payload =
     (if optProp payload ''type'' = Some (JStr ''snapshot'') then
        (case optProp payload ''data'' of Some (JArr xs) \<Rightarrow> Some xs | _ \<Rightarrow> None)
      else None)"

text \<open>
  The \<^verbatim>\<open>try\<close> block of \<^verbatim>\<open>socket.onmessage\<close>.  \<^verbatim>\<open>storeMetrics\<close> and
  \<^verbatim>\<open>addMetric\<close> are started and not awaited: on the memory backend their effect is
  there before the next handler runs, on the SQLite backend the call is in flight when
  the handler returns, and their rejection reaches nobody.
\<close>

definition onmessage_try :: "env \<Rightarrow> frame \<Rightarrow> screen \<Rightarrow> error + screen" where
  "onmessage_try e fr s =
     (case fr of
        NotJson \<Rightarrow> Inl (JsError json_syntax_message)
      | Json payload \<Rightarrow>
          (case getProp payload ''type'' of
             Inl err \<Rightarrow> Inl err
           | Inr t \<Rightarrow>
               (case snapshot_data payload of
                  Some snapshot \<Rightarrow>
                    Inr (s\<lparr>metrics := snapshot,
                           metricsStore := snd (storeMetrics e Detached snapshot (metricsStore s))\<rparr>)
                | None \<Rightarrow>
                    if truthy (optProp payload ''metric_type'') then
                      Inr (s\<lparr>metrics := slice0 (payload # metrics s) 50,
                             metricsStore := snd (addMetric e Detached payload (metricsStore s))\<rparr>)
                    else Inr s)))"

text \<open>\<^verbatim>\<open>socket.onmessage\<close>: the \<^verbatim>\<open>catch\<close> block ignores whatever was thrown.\<close>

definition onmessage :: "env \<Rightarrow> frame \<Rightarrow> screen \<Rightarrow> screen" where
  "onmessage e fr s = (case onmessage_try e fr s of Inl err \<Rightarrow> s | Inr s' \<Rightarrow> s')"

text \<open>The second test of the handler: a payload that is not a snapshot and has a truthy
  \<^verbatim>\<open>metric_type\<close> is taken as one reading.\<close>

definition is_incremental :: "json \<Rightarrow> bool" where
  "is_incremental payload =
     (snapshot_data payload = None \<and> truthy (optProp payload ''metric_type''))"

text \<open>Frames are handled one after the other, in the order of delivery.\<close>

fun deliver :: "env \<Rightarrow> frame list \<Rightarrow> screen \<Rightarrow> screen" where
  "deliver e [] s = s"
| "deliver e (fr # frs) s = deliver e frs (onmessage e fr s)"

subsection \<open>The session: callbacks of the room and the retry button\<close>

definition onConnected :: "screen \<Rightarrow> screen" where
  "onConnected s = s\<lparr>connectionState := Connected, errorMessage := None\<rparr>"

definition onDisconnected :: "screen \<Rightarrow> screen" where
  "onDisconnected s =
     s\<lparr>connectionState := Disconnected,
       errorMessage := Some ''Disconnected before media negotiation completed.''\<rparr>"

definition onError :: "string \<Rightarrow> screen \<Rightarrow> screen" where
  "onError msg s = s\<lparr>connectionState := Error, errorMessage := Some msg\<rparr>"

definition permission_denied_text :: string where
  "permission_denied_text = ''Camera or microphone permission denied. Enable access in Settings.''"

definition failed_to_start_text :: string where
  "failed_to_start_text = ''Camera/microphone failed to start. Try reconnecting.''"

text \<open>\<^verbatim>\<open>onMediaDeviceFailure\<close>: the callback may be given no failure.\<close>

definition onMediaDeviceFailure :: "failure option \<Rightarrow> screen \<Rightarrow> screen" where
  "onMediaDeviceFailure f s =
     (case f of
        None \<Rightarrow> s
      | Some x \<Rightarrow>
          s\<lparr>mediaErrorMessage :=
              Some (if x = PermissionDenied then permission_denied_text else failed_to_start_text)\<rparr>)"

definition retryConnect :: "screen \<Rightarrow> screen" where
  "retryConnect s =
     s\<lparr>errorMessage := None, mediaErrorMessage := None, connectionState := Connecting,
       connectKey := connectKey s + 1\<rparr>"

text \<open>The retry button is rendered under
  \<^verbatim>\<open>connectionState === 'error' && errorMessage\<close>.\<close>

definition retry_offered :: "screen \<Rightarrow> bool" where
  "retry_offered s =
     (connectionState s = Error \<and> errorMessage s \<noteq> None \<and> errorMessage s \<noteq> Some [])"

text \<open>\<^verbatim>\<open>MediaDiagnostics\<close>: the message of the last device failure, and the effect that
  reports it, or else the camera watchdog's message, through \<^verbatim>\<open>onMessage\<close>.\<close>

fun mediaFailureMessage :: "failure option \<Rightarrow> string option" where
  "mediaFailureMessage None = None"
| "mediaFailureMessage (Some PermissionDenied) = Some permission_denied_text"
| "mediaFailureMessage (Some NotFound) =
     Some ''No camera/microphone detected. Use a physical device if on simulator.''"
| "mediaFailureMessage (Some DeviceInUse) =
     Some ''Camera/microphone is already in use by another app.''"
| "mediaFailureMessage (Some Other) = Some failed_to_start_text"

definition onMessage :: "failure option \<Rightarrow> string option \<Rightarrow> screen \<Rightarrow> screen" where
  "onMessage f cameraStatusMessage s =
     s\<lparr>mediaErrorMessage :=
         (case mediaFailureMessage f of Some m \<Rightarrow> Some m | None \<Rightarrow> cameraStatusMessage)\<rparr>"

text \<open>The signals the session reacts to; the retry is a press of the button, which
  can only happen while the button is rendered.\<close>

datatype event =
    ConnectSuccess
  | Disconnect
  | TransportError string
  | MediaFailure "failure option"
  | Diagnostics "failure option" "string option"
  | Retry

fun handle :: "event \<Rightarrow> screen \<Rightarrow> screen" where
  "handle ConnectSuccess s = onConnected s"
| "handle Disconnect s = onDisconnected s"
| "handle (TransportError msg) s = onError msg s"
| "handle (MediaFailure f) s = onMediaDeviceFailure f s"
| "handle (Diagnostics f c) s = onMessage f c s"
| "handle Retry s = (if retry_offered s then retryConnect s else s)"

section \<open>The session state machine as the specification words it\<close>

text \<open>
  These definitions follow the specification, not the code; they are what the code's
  session handlers are compared with.  The specification has five states and the
  transitions connecting \<open>\<rightarrow>\<close> {connected, error}, connected \<open>\<rightarrow>\<close> {degraded,
  disconnected, error}, degraded \<open>\<rightarrow>\<close> {connected, disconnected}; disconnected and
  error are left only by the operator's reconnect, which enters connecting with a fresh
  attempt identifier.
\<close>

datatype session_state = SConnecting | SConnected | SDegraded | SDisconnected | SError

fun spec_state :: "conn \<Rightarrow> session_state" where
  "spec_state Connecting = SConnecting"
| "spec_state Connected = SConnected"
| "spec_state Disconnected = SDisconnected"
| "spec_state Error = SError"

definition spec_transition :: "session_state \<Rightarrow> session_state \<Rightarrow> bool" where
  "spec_transition a b =
     (a = SConnecting \<and> (b = SConnected \<or> b = SError)
      \<or> a = SConnected \<and> (b = SDegraded \<or> b = SDisconnected \<or> b = SError)
      \<or> a = SDegraded \<and> (b = SConnected \<or> b = SDisconnected))"

text \<open>A step from \<open>s\<close> to \<open>s'\<close> on the signal \<open>ev\<close> is allowed by the specification when
  it keeps the state, takes one of the transitions above, or is the reconnect.\<close>

definition spec_allows :: "event \<Rightarrow> screen \<Rightarrow> screen \<Rightarrow> bool" where
  "spec_allows ev s s' =
     (connectionState s' = connectionState s
      \<or> spec_transition (spec_state (connectionState s)) (spec_state (connectionState s'))
      \<or> ev = Retry
         \<and> (connectionState s = Disconnected \<or> connectionState s = Error)
         \<and> connectionState s' = Connecting
         \<and> connectKey s' \<noteq> connectKey s)"

section \<open>Sample inputs\<close>

text \<open>A store before its first use; a platform without the SQLite module, one whose
  SQLite module loads and works, and one whose module loads but whose database does not
  open.\<close>

definition fresh_store :: store where
  "fresh_store = \<lparr>db = None, memoryCache = [], metrics_table = None, in_flight = []\<rparr>"

definition no_sqlite :: env where
  "no_sqlite =
     \<lparr>sqlite_module = False, db_opens = False, sql_ok = False,
      foreign_id = (\<lambda>v. None)\<rparr>"

definition with_sqlite :: env where
  "with_sqlite =
     \<lparr>sqlite_module = True, db_opens = True, sql_ok = True,
      foreign_id = (\<lambda>v. None)\<rparr>"

definition broken_sqlite :: env where
  "broken_sqlite =
     \<lparr>sqlite_module = True, db_opens = False, sql_ok = False,
      foreign_id = (\<lambda>v. None)\<rparr>"

text \<open>A platform on which the database is open and the statement that is executed
  fails.\<close>

definition failing_statement :: env where
  "failing_statement =
     \<lparr>sqlite_module = True, db_opens = True, sql_ok = False,
      foreign_id = (\<lambda>v. None)\<rparr>"

text \<open>A reading of the declared type, its row, and the snapshot message around a list
  of readings.\<close>

definition reading :: "rat \<Rightarrow> rat \<Rightarrow> json" where
  "reading i v =
     JObj [(''id'', JNum i), (''metric_type'', JStr ''heart_rate''), (''value'', JNum v),
           (''unit'', JStr ''bpm''), (''recorded_at'', JStr ''2026-01-01T00:00:00Z'')]"

definition reading_row :: "int \<Rightarrow> rat \<Rightarrow> row" where
  "reading_row k v =
     \<lparr>col_id = k, col_metric_type = JStr ''heart_rate'', col_value = JNum v,
      col_unit = JStr ''bpm'', col_recorded_at = JStr ''2026-01-01T00:00:00Z''\<rparr>"

definition nth_reading :: "nat \<Rightarrow> json" where
  "nth_reading n = reading (of_nat n) 70"

definition snapshot_message :: "json list \<Rightarrow> json" where
  "snapshot_message xs = JObj [(''type'', JStr ''snapshot''), (''data'', JArr xs)]"

text \<open>Stores that hold the reading 1 already, on either backend, and a screen that
  shows it.\<close>

definition cached_store :: store where
  "cached_store =
     \<lparr>db = Some MemoryDb, memoryCache = [reading 1 70], metrics_table = None, in_flight = []\<rparr>"

definition sqlite_store :: store where
  "sqlite_store =
     \<lparr>db = Some SqliteDb, memoryCache = [], metrics_table = Some [reading_row 1 70],
      in_flight = []\<rparr>"

definition stale_screen :: screen where
  "stale_screen = (initial_screen cached_store)\<lparr>metrics := [reading 1 70]\<rparr>"

text \<open>The store after a first call, on a store without a handle, whose
  \<^verbatim>\<open>CREATE TABLE\<close> failed: the handle is set and the table does not exist.\<close>

definition half_initialized_store :: store where
  "half_initialized_store =
     snd (sql_step failing_statement 0 (snd (loadCachedMetrics with_sqlite Detached 20 fresh_store)))"

text \<open>Two error replies of the backend, each with the text of its body and the value
  the text parses to: a \<^verbatim>\<open>detail\<close> string, and a \<^verbatim>\<open>detail\<close> array of objects
  with a \<^verbatim>\<open>msg\<close>.\<close>

definition unauthorized_body :: string where
  \<open>unauthorized_body = ''{"detail":"Not authenticated"}''\<close>

definition unauthorized_json :: json where
  "unauthorized_json = JObj [(''detail'', JStr ''Not authenticated'')]"

definition invalid_body :: string where
  \<open>invalid_body = ''{"detail":[{"loc":["query","limit"],"msg":"value is not a valid integer"}]}''\<close>

definition invalid_json :: json where
  "invalid_json =
     JObj [(''detail'', JArr [JObj [(''loc'', JArr [JStr ''query'', JStr ''limit'']),
                                    (''msg'', JStr ''value is not a valid integer'')]])]"

section \<open>Properties\<close>

subsection \<open>Helper facts\<close>

lemma slice0_50: "slice0 xs 50 = take 50 xs"
  by (simp add: slice0_def)

subsection \<open>The handle of the store\<close>

lemma db_launch: "db (snd (launch w script s)) = db s"
  by (simp add: launch_def)

lemma db_initMetricsDb_steps:
  "db (snd (initMetricsDb_steps e s)) =
     (case db s of None \<Rightarrow> Some (if sqlite_module e then SqliteDb else MemoryDb) | Some b \<Rightarrow> Some b)"
  by (cases "db s") (simp_all add: initMetricsDb_steps_def Let_def)

lemma db_initMetricsDb:
  "db (snd (initMetricsDb e w s)) =
     (case db s of None \<Rightarrow> Some (if sqlite_module e then SqliteDb else MemoryDb) | Some b \<Rightarrow> Some b)"
proof (cases "initMetricsDb_steps e s")
  case (Pair script s1)
  with db_initMetricsDb_steps [of e s] show ?thesis
    by (simp add: initMetricsDb_def db_launch)
qed

lemma db_ensure_db:
  "db (snd (ensure_db e s)) =
     (case db s of None \<Rightarrow> Some (if sqlite_module e then SqliteDb else MemoryDb) | Some b \<Rightarrow> Some b)"
  by (cases "db s") (simp_all add: ensure_db_def db_initMetricsDb_steps)

lemma db_loadCachedMetrics: "db (snd (loadCachedMetrics e w limit s)) = db (snd (ensure_db e s))"
proof (cases "ensure_db e s")
  case (Pair pre s1)
  then show ?thesis
    by (simp add: loadCachedMetrics_def db_launch split: option.splits backend.splits)
qed

lemma db_storeMetrics: "db (snd (storeMetrics e w ms s)) = db (snd (ensure_db e s))"
proof (cases "ensure_db e s")
  case (Pair pre s1)
  then show ?thesis
    by (simp add: storeMetrics_def db_launch memory_storeMetrics_def
        split: option.splits backend.splits)
qed

lemma db_addMetric: "db (snd (addMetric e w m s)) = db (snd (ensure_db e s))"
proof (cases "ensure_db e s")
  case (Pair pre s1)
  then show ?thesis
    by (simp add: addMetric_def db_launch memory_addMetric_def
        split: option.splits backend.splits)
qed

lemma db_sql_step: "db (snd (sql_step e i s)) = db s"
proof (cases "i < length (in_flight s)")
  case False
  then show ?thesis by (simp add: sql_step_def)
next
  case True
  obtain w script where c: "in_flight s ! i = (w, script)"
    by (cases "in_flight s ! i")
  obtain p t where a: "advance e script (metrics_table s) = (p, t)"
    by (cases "advance e script (metrics_table s)")
  from True c a show ?thesis
    by (cases p) (simp_all add: sql_step_def)
qed

lemma db_call_kept: "db s = Some b \<Longrightarrow> db (call e c s) = Some b"
  by (cases c)
    (simp_all add: db_initMetricsDb db_loadCachedMetrics db_storeMetrics db_addMetric
      db_ensure_db db_sql_step)

lemma db_call_first:
  "db s = None \<Longrightarrow> exported c \<Longrightarrow>
     db (call e c s) = Some (if sqlite_module e then SqliteDb else MemoryDb)"
  by (cases c)
    (simp_all add: db_initMetricsDb db_loadCachedMetrics db_storeMetrics db_addMetric
      db_ensure_db)

lemma db_calls_kept: "db s = Some b \<Longrightarrow> db (calls cs s) = Some b"
proof (induction cs arbitrary: s)
  case Nil
  then show ?case by simp
next
  case (Cons ec cs)
  obtain e c where ec: "ec = (e, c)" by (cases ec)
  from Cons.prems have "db (call e c s) = Some b" by (rule db_call_kept)
  then have "db (calls cs (call e c s)) = Some b" by (rule Cons.IH)
  with ec show ?case by simp
qed

lemma initMetricsDb_with_handle:
  assumes "db s = Some b"
  shows "initMetricsDb e w s =
     (case b of
        MemoryDb \<Rightarrow> (Settled (Inr []), s)
      | SqliteDb \<Rightarrow> (Pending, s\<lparr>in_flight := in_flight s @ [(w, sqlite_init)]\<rparr>))"
  using assms
  by (cases b)
    (simp_all add: initMetricsDb_def initMetricsDb_steps_def backend_init_def launch_def
      memory_init_def sqlite_init_def)

lemma initMetricsDb_keeps_contents:
  assumes "db s = Some b"
  shows "memoryCache (snd (initMetricsDb e w s)) = memoryCache s"
    and "stored_rows (snd (initMetricsDb e w s)) = stored_rows s"
  using assms
  by (cases b; simp add: initMetricsDb_with_handle stored_rows_def)+

lemma create_table_keeps_rows:
  "table_rows (snd (exec e CreateTable t)) = table_rows t"
  by (simp add: table_rows_def)

lemma run_sqlite_init:
  "run_script e sqlite_init t =
     (if db_opens e \<and> sql_ok e then (Inr [], Some (table_rows t)) else (Inl SqlRejection, t))"
  by (simp add: sqlite_init_def)

text \<open>
  Claim C9.  The first call of an exported function on a store without a handle selects
  the backend, SQLite when the module loads and memory otherwise, and no later call and
  no statement changes the handle, whatever the platform does by then.  A call of
  \<^verbatim>\<open>initMetricsDb\<close> on a store with a handle keeps the handle, the memory cache and
  the rows of the table: on the memory backend it does nothing at all, on the SQLite
  backend it starts the \<^verbatim>\<open>init\<close> of the backend, whose one statement,
  \<^verbatim>\<open>CREATE TABLE IF NOT EXISTS\<close>, leaves the rows of the table as they are whether
  it succeeds or fails.
\<close>

theorem backend_selected_once:
  "(db s = None \<and> exported c \<longrightarrow>
      db (calls ((e, c) # cs) s) = Some (if sqlite_module e then SqliteDb else MemoryDb))
   \<and> (db s = Some b \<longrightarrow>
        db (calls cs s) = Some b
        \<and> db (snd (initMetricsDb e w s)) = Some b
        \<and> memoryCache (snd (initMetricsDb e w s)) = memoryCache s
        \<and> stored_rows (snd (initMetricsDb e w s)) = stored_rows s
        \<and> initMetricsDb e w s =
            (case b of
               MemoryDb \<Rightarrow> (Settled (Inr []), s)
             | SqliteDb \<Rightarrow> (Pending, s\<lparr>in_flight := in_flight s @ [(w, sqlite_init)]\<rparr>)))
   \<and> table_rows (snd (run_script e' sqlite_init t)) = table_rows t"
proof -
  have first: "db (calls ((e, c) # cs) s) = Some (if sqlite_module e then SqliteDb else MemoryDb)"
    if "db s = None" "exported c"
  proof -
    from that have "db (call e c s) = Some (if sqlite_module e then SqliteDb else MemoryDb)"
      by (rule db_call_first)
    then show ?thesis by (simp add: db_calls_kept)
  qed
  have later: "db (snd (initMetricsDb e w s)) = Some b" if "db s = Some b"
    using that by (simp add: db_initMetricsDb)
  have rows: "table_rows (snd (run_script e' sqlite_init t)) = table_rows t"
    by (simp add: run_sqlite_init table_rows_def)
  from first later rows db_calls_kept initMetricsDb_keeps_contents initMetricsDb_with_handle
  show ?thesis by blast
qed

theorem backend_selected_once_witness:
  "db (calls [(no_sqlite, LoadCachedMetrics 20), (with_sqlite, InitMetricsDb),
              (with_sqlite, AddMetric (reading 2 80)), (with_sqlite, Statement 0)] fresh_store)
     = Some MemoryDb
   \<and> db (snd (initMetricsDb with_sqlite Detached cached_store)) = Some MemoryDb
   \<and> memoryCache (snd (initMetricsDb with_sqlite Detached cached_store)) = [reading 1 70]
   \<and> db (snd (initMetricsDb no_sqlite Detached sqlite_store)) = Some SqliteDb
   \<and> stored_rows (snd (initMetricsDb no_sqlite Detached sqlite_store)) = [reading_row 1 70]
   \<and> table_rows (snd (run_script with_sqlite sqlite_init (Some [reading_row 1 70])))
       = [reading_row 1 70]"
proof -
  have a: "db fresh_store = None" by (simp add: fresh_store_def)
  have b: "db cached_store = Some MemoryDb" by (simp add: cached_store_def)
  have c: "db sqlite_store = Some SqliteDb" by (simp add: sqlite_store_def)
  have m: "memoryCache cached_store = [reading 1 70]" by (simp add: cached_store_def)
  have r: "stored_rows sqlite_store = [reading_row 1 70]"
    by (simp add: sqlite_store_def stored_rows_def table_rows_def)
  have n: "\<not> sqlite_module no_sqlite" by (simp add: no_sqlite_def)
  from backend_selected_once [where s = fresh_store and e = no_sqlite and c = "LoadCachedMetrics 20"
      and cs = "[(with_sqlite, InitMetricsDb), (with_sqlite, AddMetric (reading 2 80)),
        (with_sqlite, Statement 0)]"] a n
  have "db (calls [(no_sqlite, LoadCachedMetrics 20), (with_sqlite, InitMetricsDb),
              (with_sqlite, AddMetric (reading 2 80)), (with_sqlite, Statement 0)] fresh_store)
     = Some MemoryDb"
    by simp
  moreover from backend_selected_once [where s = cached_store and e = with_sqlite and b = MemoryDb
      and w = Detached] b m
  have "db (snd (initMetricsDb with_sqlite Detached cached_store)) = Some MemoryDb"
    "memoryCache (snd (initMetricsDb with_sqlite Detached cached_store)) = [reading 1 70]"
    by simp_all
  moreover from backend_selected_once [where s = sqlite_store and e = no_sqlite and b = SqliteDb
      and w = Detached] c r
  have "db (snd (initMetricsDb no_sqlite Detached sqlite_store)) = Some SqliteDb"
    "stored_rows (snd (initMetricsDb no_sqlite Detached sqlite_store)) = [reading_row 1 70]"
    by metis+
  moreover from backend_selected_once [where e' = with_sqlite and t = "Some [reading_row 1 70]"]
  have "table_rows (snd (run_script with_sqlite sqlite_init (Some [reading_row 1 70])))
       = [reading_row 1 70]"
    by (simp add: table_rows_def)
  ultimately show ?thesis by simp
qed

subsection \<open>Calling the store before it is initialized\<close>

lemma entry_points_memory:
  assumes "db s = None" and "\<not> sqlite_module e"
  shows "loadCachedMetrics e w limit s =
      (Settled (Inr (slice0 (memoryCache s) limit)), s\<lparr>db := Some MemoryDb\<rparr>)"
    and "storeMetrics e w ms s = (Settled (Inr []), s\<lparr>db := Some MemoryDb, memoryCache := ms\<rparr>)"
    and "addMetric e w m s =
      (Settled (Inr []), s\<lparr>db := Some MemoryDb, memoryCache := m # memoryCache s\<rparr>)"
  using assms
  by (simp_all add: loadCachedMetrics_def storeMetrics_def addMetric_def ensure_db_def
      initMetricsDb_steps_def memory_loadCachedMetrics_def memory_storeMetrics_def
      memory_addMetric_def)

lemma entry_points_sqlite:
  assumes "db s = None" and "sqlite_module e"
  shows "loadCachedMetrics e w limit s =
      (Pending, s\<lparr>db := Some SqliteDb,
         in_flight := in_flight s @ [(w, sqlite_init @ sqlite_loadCachedMetrics limit)]\<rparr>)"
    and "storeMetrics e w ms s =
      (Pending, s\<lparr>db := Some SqliteDb,
         in_flight := in_flight s @ [(w, sqlite_init @ sqlite_storeMetrics ms)]\<rparr>)"
    and "addMetric e w m s =
      (Pending, s\<lparr>db := Some SqliteDb,
         in_flight := in_flight s @ [(w, sqlite_init @ sqlite_addMetric m)]\<rparr>)"
  using assms
  by (simp_all add: loadCachedMetrics_def storeMetrics_def addMetric_def ensure_db_def
      initMetricsDb_steps_def backend_init_def launch_def sqlite_init_def
      sqlite_loadCachedMetrics_def sqlite_storeMetrics_def sqlite_addMetric_def)

lemma advance_sqlite_init:
  assumes "rest \<noteq> []"
  shows "advance e (sqlite_init @ rest) t =
     (if db_opens e \<and> sql_ok e then (Suspended rest, Some (table_rows t))
      else (Rejected SqlRejection, t))"
  using assms by (simp add: sqlite_init_def)

text \<open>
  Claim C10, as the code has it.  On a store without a handle each of the three entry
  points first selects the backend and takes the steps of its \<^verbatim>\<open>init\<close>.  On the
  memory backend there are none: the call is complete at once and never fails, and a load
  returns the first \<open>limit\<close> entries of the cache, so nothing from a cache that was never
  written.  On the SQLite backend the call is in flight with the steps of \<^verbatim>\<open>init\<close> in
  front of its own: \<^verbatim>\<open>CREATE TABLE\<close> is its first statement, and the statements of the
  operation follow only when the database opened and that statement succeeded; otherwise
  the call is rejected there.  With the database open and the statements succeeding, a
  load on a database without the table creates the table and resolves to no readings.
\<close>

theorem store_usable_before_init:
  assumes "db s = None"
  shows "ensure_db e s =
      (backend_init (if sqlite_module e then SqliteDb else MemoryDb),
       s\<lparr>db := Some (if sqlite_module e then SqliteDb else MemoryDb)\<rparr>)
    \<and> (\<not> sqlite_module e \<longrightarrow>
         loadCachedMetrics e w limit s =
           (Settled (Inr (slice0 (memoryCache s) limit)), s\<lparr>db := Some MemoryDb\<rparr>)
         \<and> storeMetrics e w ms s =
           (Settled (Inr []), s\<lparr>db := Some MemoryDb, memoryCache := ms\<rparr>)
         \<and> addMetric e w m s =
           (Settled (Inr []), s\<lparr>db := Some MemoryDb, memoryCache := m # memoryCache s\<rparr>))
    \<and> (sqlite_module e \<longrightarrow>
         loadCachedMetrics e w limit s =
           (Pending, s\<lparr>db := Some SqliteDb,
              in_flight := in_flight s @ [(w, sqlite_init @ sqlite_loadCachedMetrics limit)]\<rparr>)
         \<and> storeMetrics e w ms s =
           (Pending, s\<lparr>db := Some SqliteDb,
              in_flight := in_flight s @ [(w, sqlite_init @ sqlite_storeMetrics ms)]\<rparr>)
         \<and> addMetric e w m s =
           (Pending, s\<lparr>db := Some SqliteDb,
              in_flight := in_flight s @ [(w, sqlite_init @ sqlite_addMetric m)]\<rparr>))
    \<and> (rest \<noteq> [] \<longrightarrow>
         advance e' (sqlite_init @ rest) t =
           (if db_opens e' \<and> sql_ok e' then (Suspended rest, Some (table_rows t))
            else (Rejected SqlRejection, t)))
    \<and> (\<not> sqlite_module e \<and> memoryCache s = [] \<longrightarrow>
         fst (loadCachedMetrics e w limit s) = Settled (Inr []))
    \<and> (db_opens e' \<and> sql_ok e' \<longrightarrow>
         run_script e' (sqlite_init @ sqlite_loadCachedMetrics limit) None = (Inr [], Some []))"
proof -
  have handle: "ensure_db e s =
      (backend_init (if sqlite_module e then SqliteDb else MemoryDb),
       s\<lparr>db := Some (if sqlite_module e then SqliteDb else MemoryDb)\<rparr>)"
    using assms by (simp add: ensure_db_def initMetricsDb_steps_def Let_def)
  have empty: "fst (loadCachedMetrics e w limit s) = Settled (Inr [])"
    if "\<not> sqlite_module e \<and> memoryCache s = []"
    using entry_points_memory(1) [OF assms, of e w limit] that by (simp add: slice0_def)
  have created: "run_script e' (sqlite_init @ sqlite_loadCachedMetrics limit) None = (Inr [], Some [])"
    if "db_opens e' \<and> sql_ok e'"
    using that
    by (simp add: sqlite_init_def sqlite_loadCachedMetrics_def table_rows_def sql_limit_def
        order_by_recorded_at_desc_def)
  have memory: "loadCachedMetrics e w limit s =
           (Settled (Inr (slice0 (memoryCache s) limit)), s\<lparr>db := Some MemoryDb\<rparr>)
         \<and> storeMetrics e w ms s =
           (Settled (Inr []), s\<lparr>db := Some MemoryDb, memoryCache := ms\<rparr>)
         \<and> addMetric e w m s =
           (Settled (Inr []), s\<lparr>db := Some MemoryDb, memoryCache := m # memoryCache s\<rparr>)"
    if "\<not> sqlite_module e"
    using entry_points_memory [OF assms that] by simp
  have sqlite: "loadCachedMetrics e w limit s =
           (Pending, s\<lparr>db := Some SqliteDb,
              in_flight := in_flight s @ [(w, sqlite_init @ sqlite_loadCachedMetrics limit)]\<rparr>)
         \<and> storeMetrics e w ms s =
           (Pending, s\<lparr>db := Some SqliteDb,
              in_flight := in_flight s @ [(w, sqlite_init @ sqlite_storeMetrics ms)]\<rparr>)
         \<and> addMetric e w m s =
           (Pending, s\<lparr>db := Some SqliteDb,
              in_flight := in_flight s @ [(w, sqlite_init @ sqlite_addMetric m)]\<rparr>)"
    if "sqlite_module e"
    using entry_points_sqlite [OF assms that] by simp
  have init: "advance e' (sqlite_init @ rest) t =
           (if db_opens e' \<and> sql_ok e' then (Suspended rest, Some (table_rows t))
            else (Rejected SqlRejection, t))"
    if "rest \<noteq> []"
    using that by (rule advance_sqlite_init)
  from handle memory sqlite init empty created show ?thesis by blast
qed

theorem store_usable_before_init_witness:
  "db fresh_store = None
   \<and> loadCachedMetrics no_sqlite Detached 20 fresh_store
       = (Settled (Inr []), fresh_store\<lparr>db := Some MemoryDb\<rparr>)
   \<and> storeMetrics no_sqlite Detached [reading 2 80] fresh_store
       = (Settled (Inr []), fresh_store\<lparr>db := Some MemoryDb, memoryCache := [reading 2 80]\<rparr>)
   \<and> loadCachedMetrics with_sqlite Detached 20 fresh_store
       = (Pending, fresh_store\<lparr>db := Some SqliteDb,
            in_flight := [(Detached, sqlite_init @ sqlite_loadCachedMetrics 20)]\<rparr>)
   \<and> advance with_sqlite (sqlite_init @ sqlite_loadCachedMetrics 20) None
       = (Suspended (sqlite_loadCachedMetrics 20), Some [])
   \<and> advance broken_sqlite (sqlite_init @ sqlite_loadCachedMetrics 20) None
       = (Rejected SqlRejection, None)
   \<and> run_script with_sqlite (sqlite_init @ sqlite_loadCachedMetrics 20) None = (Inr [], Some [])"
proof -
  have a: "db fresh_store = None" "memoryCache fresh_store = []" "in_flight fresh_store = []"
    by (simp_all add: fresh_store_def)
  have n: "\<not> sqlite_module no_sqlite" "sqlite_module with_sqlite"
    "db_opens with_sqlite \<and> sql_ok with_sqlite" "\<not> db_opens broken_sqlite"
    by (simp_all add: no_sqlite_def with_sqlite_def broken_sqlite_def)
  have r: "sqlite_loadCachedMetrics 20 \<noteq> []"
    by (simp add: sqlite_loadCachedMetrics_def)
  from store_usable_before_init [OF a(1), of no_sqlite Detached 20 "[reading 2 80]"] n(1) a(2)
  have "loadCachedMetrics no_sqlite Detached 20 fresh_store
       = (Settled (Inr []), fresh_store\<lparr>db := Some MemoryDb\<rparr>)"
    "storeMetrics no_sqlite Detached [reading 2 80] fresh_store
       = (Settled (Inr []), fresh_store\<lparr>db := Some MemoryDb, memoryCache := [reading 2 80]\<rparr>)"
    by (simp_all add: slice0_def)
  moreover from store_usable_before_init [OF a(1), of with_sqlite Detached 20] n(2) a(3)
  have "loadCachedMetrics with_sqlite Detached 20 fresh_store
       = (Pending, fresh_store\<lparr>db := Some SqliteDb,
            in_flight := [(Detached, sqlite_init @ sqlite_loadCachedMetrics 20)]\<rparr>)"
    by simp
  moreover from store_usable_before_init [OF a(1), where rest = "sqlite_loadCachedMetrics 20"
      and e' = with_sqlite and t = None] r n(3)
  have "advance with_sqlite (sqlite_init @ sqlite_loadCachedMetrics 20) None
       = (Suspended (sqlite_loadCachedMetrics 20), Some [])"
    by (simp add: table_rows_def)
  moreover from store_usable_before_init [OF a(1), where rest = "sqlite_loadCachedMetrics 20"
      and e' = broken_sqlite and t = None] r n(4)
  have "advance broken_sqlite (sqlite_init @ sqlite_loadCachedMetrics 20) None
       = (Rejected SqlRejection, None)"
    by simp
  moreover from store_usable_before_init [OF a(1), where e' = with_sqlite and limit = 20] n(3)
  have "run_script with_sqlite (sqlite_init @ sqlite_loadCachedMetrics 20) None = (Inr [], Some [])"
    by simp
  ultimately show ?thesis using a(1) by simp
qed

lemma half_initialized_store_eq:
  "half_initialized_store = fresh_store\<lparr>db := Some SqliteDb\<rparr>"
  by (simp add: half_initialized_store_def fresh_store_def with_sqlite_def failing_statement_def
      loadCachedMetrics_def ensure_db_def initMetricsDb_steps_def backend_init_def launch_def
      sqlite_init_def sqlite_loadCachedMetrics_def sql_step_def remove_nth_def)

text \<open>
  Claim C10 as stated fails on the SQLite backend.  A load on a store without a handle
  is rejected when the database does not open, and the refresh that awaits it gets the
  rejection.  And after a first call whose \<^verbatim>\<open>CREATE TABLE\<close> failed, the handle is set
  and the table does not exist: a later load does not run \<^verbatim>\<open>init\<close> again and is
  rejected by its \<^verbatim>\<open>SELECT\<close>, on a platform whose statements succeed.
\<close>

theorem uninitialized_store_failure_observed:
  "db fresh_store = None
   \<and> fst (sql_step broken_sqlite 0 (snd (loadCachedMetrics broken_sqlite RefreshLoad 20 fresh_store)))
       = Some (RefreshLoad, Inl SqlRejection)
   \<and> db half_initialized_store = Some SqliteDb
   \<and> metrics_table half_initialized_store = None
   \<and> fst (sql_step with_sqlite 0
        (snd (loadCachedMetrics with_sqlite RefreshLoad 20 half_initialized_store)))
       = Some (RefreshLoad, Inl SqlRejection)"
proof -
  have first: "fst (sql_step broken_sqlite 0
      (snd (loadCachedMetrics broken_sqlite RefreshLoad 20 fresh_store)))
       = Some (RefreshLoad, Inl SqlRejection)"
    by (simp add: fresh_store_def with_sqlite_def broken_sqlite_def
        loadCachedMetrics_def ensure_db_def initMetricsDb_steps_def backend_init_def launch_def
        sqlite_init_def sqlite_loadCachedMetrics_def sql_step_def)
  have second: "fst (sql_step with_sqlite 0
        (snd (loadCachedMetrics with_sqlite RefreshLoad 20 half_initialized_store)))
       = Some (RefreshLoad, Inl SqlRejection)"
    by (simp add: half_initialized_store_eq fresh_store_def with_sqlite_def
        loadCachedMetrics_def ensure_db_def launch_def sqlite_loadCachedMetrics_def sql_step_def)
  from first second show ?thesis
    by (simp add: half_initialized_store_eq) (simp add: fresh_store_def)
qed

subsection \<open>What a channel message does to the view\<close>

lemma snapshot_data_not_null: "snapshot_data p = Some xs \<Longrightarrow> \<exists>t. getProp p ''type'' = Inr t"
  by (cases p) (simp_all add: snapshot_data_def)

lemma truthy_prop_not_null: "truthy (optProp p k) \<Longrightarrow> \<exists>t. getProp p k' = Inr t"
  by (cases p) simp_all

lemma onmessage_snapshot:
  assumes "snapshot_data p = Some xs"
  shows "onmessage e (Json p) s =
    s\<lparr>metrics := xs, metricsStore := snd (storeMetrics e Detached xs (metricsStore s))\<rparr>"
proof -
  from assms obtain t where "getProp p ''type'' = Inr t"
    using snapshot_data_not_null by blast
  with assms show ?thesis by (simp add: onmessage_def onmessage_try_def)
qed

lemma onmessage_incremental:
  assumes "is_incremental p"
  shows "onmessage e (Json p) s =
    s\<lparr>metrics := take 50 (p # metrics s),
      metricsStore := snd (addMetric e Detached p (metricsStore s))\<rparr>"
proof -
  from assms have tr: "truthy (optProp p ''metric_type'')" and ns: "snapshot_data p = None"
    by (simp_all add: is_incremental_def)
  from tr obtain t where "getProp p ''type'' = Inr t"
    using truthy_prop_not_null by blast
  with tr ns show ?thesis by (simp add: onmessage_def onmessage_try_def slice0_50)
qed

subsection \<open>Snapshot messages\<close>

lemma run_script_advance:
  "run_script e script t =
     (case advance e script t of
        (Suspended rest, t') \<Rightarrow> run_script e rest t'
      | (Resolved out, t') \<Rightarrow> (Inr out, t')
      | (Rejected err, t') \<Rightarrow> (Inl err, t'))"
proof (induction e script t rule: advance.induct)
  case (1 e t)
  show ?case by simp
next
  case (2 e rest t)
  then show ?case by simp
next
  case (3 e st rest t)
  obtain r t' where x: "exec e st t = (r, t')" by (cases "exec e st t")
  then show ?case by (cases r) simp_all
qed






lemma storeMetrics_memory:
  assumes "db st = Some MemoryDb \<or> db st = None \<and> \<not> sqlite_module e"
  shows "memoryCache (snd (storeMetrics e w xs st)) = xs"
    and "fst (storeMetrics e w xs st) = Settled (Inr [])"
  using assms
  by (auto simp: storeMetrics_def ensure_db_def initMetricsDb_steps_def memory_storeMetrics_def)






subsection \<open>The refresh\<close>



lemma fetched_failure:
  assumes "i < length (fetching s)" and "fetchLatestMetrics out = Inl err"
  shows "fetched e i out s =
    loadMetrics_catch e (fetching s ! i) err (s\<lparr>fetching := remove_nth i (fetching s)\<rparr>)"
  using assms by (simp add: fetched_def Let_def)


lemma distinct_map_take: "distinct (map f xs) \<Longrightarrow> distinct (map f (take n xs))"
  by (simp add: take_map [symmetric])




text \<open>
  Claim C2, evaluated on a refresh that starts on an empty view, with the reading 1 in
  the memory cache, and whose fetch fails after the channel has delivered a message.  The
  \<^verbatim>\<open>catch\<close> block tests the length the call closed over, which is 0, and not the
  length of the view, which is 1 by then: the view with the reading 2 is overwritten by
  the cache, which holds the readings 2 and 1.  When the message is a snapshot of 21
  readings, the view of 21 entries is overwritten by the first 20 entries of the cache.
  The same happens when the effect that follows the change of length has started a second
  call of the refresh in between.
\<close>

theorem fallback_overwrites_view_filled_meanwhile:
  "metrics (initial_screen cached_store) = []
   \<and> metrics (onmessage no_sqlite (Json (reading 2 80))
        (loadMetrics (Some ''token'') (initial_screen cached_store))) = [reading 2 80]
   \<and> metrics (fetched no_sqlite 0 (HttpFailure ''Service Unavailable'' None)
        (onmessage no_sqlite (Json (reading 2 80))
          (loadMetrics (Some ''token'') (initial_screen cached_store))))
       = [reading 2 80, reading 1 70]
   \<and> metrics (onmessage no_sqlite (Json (snapshot_message (map nth_reading [0..<21])))
        (loadMetrics (Some ''token'') (initial_screen cached_store))) = map nth_reading [0..<21]
   \<and> metrics (fetched no_sqlite 0 (HttpFailure ''Service Unavailable'' None)
        (onmessage no_sqlite (Json (snapshot_message (map nth_reading [0..<21])))
          (loadMetrics (Some ''token'') (initial_screen cached_store))))
       = map nth_reading [0..<20]
   \<and> metrics (fetched no_sqlite 0 (HttpFailure ''Service Unavailable'' None)
        (loadMetrics (Some ''token'') (onmessage no_sqlite (Json (reading 2 80))
          (loadMetrics (Some ''token'') (initial_screen cached_store)))))
       = [reading 2 80, reading 1 70]"
  by code_simp

subsection \<open>Further properties of the store and of the refresh\<close>

lemma loadCachedMetrics_with_handle:
  shows "db st = Some MemoryDb \<Longrightarrow>
      loadCachedMetrics e w limit st = (Settled (Inr (slice0 (memoryCache st) limit)), st)"
    and "db st = Some SqliteDb \<Longrightarrow>
      loadCachedMetrics e w limit st =
        (Pending, st\<lparr>in_flight := in_flight st @ [(w, sqlite_loadCachedMetrics limit)]\<rparr>)"
  by (simp_all add: loadCachedMetrics_def ensure_db_def memory_loadCachedMetrics_def launch_def
      sqlite_loadCachedMetrics_def)

text \<open>
  What a failed fetch does, by the length its call closed over.  The message of the
  failure becomes the sync error.  When that length is not 0 the view and the store are
  left as they are.  When it is 0, on the memory backend the view becomes the first 20
  entries of the cache if there are any, and is left as it is otherwise; on the SQLite
  backend the load is started and the view is left as it is until the load resolves,
  when it becomes the loaded readings if there are any.
\<close>

theorem refresh_failure_by_closed_length:
  assumes "i < length (fetching s)" and "fetchLatestMetrics out = Inl err"
  shows "metricsError (fetched e i out s) = Some (error_message err)
    \<and> (fetching s ! i \<noteq> 0 \<longrightarrow>
         metrics (fetched e i out s) = metrics s
         \<and> metricsStore (fetched e i out s) = metricsStore s)
    \<and> (fetching s ! i = 0 \<and> db (metricsStore s) = Some MemoryDb \<longrightarrow>
         metrics (fetched e i out s) =
           (if slice0 (memoryCache (metricsStore s)) 20 = [] then metrics s
            else slice0 (memoryCache (metricsStore s)) 20))
    \<and> (fetching s ! i = 0 \<and> db (metricsStore s) = Some SqliteDb \<longrightarrow>
         metrics (fetched e i out s) = metrics s
         \<and> in_flight (metricsStore (fetched e i out s)) =
             in_flight (metricsStore s) @ [(RefreshLoad, sqlite_loadCachedMetrics 20)])
    \<and> metrics (resume e RefreshLoad (Inr cached) s) = (if cached = [] then metrics s else cached)"
proof -
  note f = fetched_failure [OF assms]
  have msg: "metricsError (fetched e i out s) = Some (error_message err)"
  proof (cases "loadCachedMetrics e RefreshLoad 20 (metricsStore s)")
    case (Pair r st)
    then show ?thesis
      by (cases r; cases "fetching s ! i = 0")
        (simp_all add: f loadMetrics_catch_def Let_def loaded_def split: sum.splits)
  qed
  have kept: "metrics (fetched e i out s) = metrics s
         \<and> metricsStore (fetched e i out s) = metricsStore s"
    if "fetching s ! i \<noteq> 0"
    using that by (simp add: f loadMetrics_catch_def Let_def)
  have memory: "metrics (fetched e i out s) =
           (if slice0 (memoryCache (metricsStore s)) 20 = [] then metrics s
            else slice0 (memoryCache (metricsStore s)) 20)"
    if "fetching s ! i = 0 \<and> db (metricsStore s) = Some MemoryDb"
    using that
    by (simp add: f loadMetrics_catch_def Let_def loaded_def loadCachedMetrics_with_handle(1))
  have sqlite: "metrics (fetched e i out s) = metrics s
         \<and> in_flight (metricsStore (fetched e i out s)) =
             in_flight (metricsStore s) @ [(RefreshLoad, sqlite_loadCachedMetrics 20)]"
    if "fetching s ! i = 0 \<and> db (metricsStore s) = Some SqliteDb"
    using that
    by (simp add: f loadMetrics_catch_def Let_def loadCachedMetrics_with_handle(2))
  have resumed: "metrics (resume e RefreshLoad (Inr cached) s) = (if cached = [] then metrics s else cached)"
    by (simp add: loaded_def)
  from msg kept memory sqlite resumed show ?thesis by blast
qed

theorem refresh_failure_by_closed_length_witness:
  "metricsError (fetched no_sqlite 0 (HttpFailure ''Service Unavailable'' None)
      (loadMetrics (Some ''token'') (initial_screen cached_store))) = Some ''Service Unavailable''
   \<and> metrics (fetched no_sqlite 0 (HttpFailure ''Service Unavailable'' None)
      (loadMetrics (Some ''token'') (initial_screen cached_store))) = [reading 1 70]
   \<and> metrics (fetched no_sqlite 0 (HttpFailure ''Service Unavailable'' None)
      (loadMetrics (Some ''token'') ((initial_screen cached_store)\<lparr>metrics := [reading 2 80]\<rparr>)))
       = [reading 2 80]"
proof -
  let ?out = "HttpFailure ''Service Unavailable'' None"
  let ?a = "loadMetrics (Some ''token'') (initial_screen cached_store)"
  let ?b = "loadMetrics (Some ''token'') ((initial_screen cached_store)\<lparr>metrics := [reading 2 80]\<rparr>)"
  have out: "fetchLatestMetrics ?out = Inl (JsError ''Service Unavailable'')"
    by simp
  have a: "0 < length (fetching ?a)" "fetching ?a ! 0 = 0" "db (metricsStore ?a) = Some MemoryDb"
    "memoryCache (metricsStore ?a) = [reading 1 70]" "metrics ?a = []"
    by (simp_all add: loadMetrics_def initial_screen_def cached_store_def)
  have b: "0 < length (fetching ?b)" "fetching ?b ! 0 \<noteq> 0" "metrics ?b = [reading 2 80]"
    by (simp_all add: loadMetrics_def initial_screen_def cached_store_def)
  from refresh_failure_by_closed_length [OF a(1) out, of no_sqlite] a(2-5)
  have "metricsError (fetched no_sqlite 0 ?out ?a) = Some ''Service Unavailable''"
    "metrics (fetched no_sqlite 0 ?out ?a) = [reading 1 70]"
    by (simp_all add: slice0_def)
  moreover from refresh_failure_by_closed_length [OF b(1) out, of no_sqlite] b(2,3)
  have "metrics (fetched no_sqlite 0 ?out ?b) = [reading 2 80]"
    by simp
  ultimately show ?thesis by simp
qed

lemma next_rowid_fresh: "next_rowid rows \<notin> col_id ` set rows"
proof -
  have bound: "k \<le> fold (\<lambda>x k. max k (col_id x)) rs k
      \<and> (\<forall>x\<in>set rs. col_id x \<le> fold (\<lambda>x k. max k (col_id x)) rs k)" for rs k
  proof (induction rs arbitrary: k)
    case Nil
    show ?case by simp
  next
    case (Cons r rs)
    from Cons.IH [of "max k (col_id r)"] show ?case by auto
  qed
  show ?thesis
  proof (cases rows)
    case Nil
    then show ?thesis by simp
  next
    case (Cons r rs)
    from bound [of "col_id r" rs] have "\<forall>x\<in>set rows. col_id x < next_rowid rows"
      using Cons by (auto simp: next_rowid_def)
    then show ?thesis by auto
  qed
qed

lemma distinct_insert_or_replace:
  assumes "distinct (map col_id rows)"
  shows "distinct (map col_id (insert_or_replace r rows))"
proof -
  have "distinct (map col_id (filter (\<lambda>x. col_id x \<noteq> col_id r) rows))"
    using assms by (rule distinct_map_filter)
  moreover have "col_id r \<notin> col_id ` set (filter (\<lambda>x. col_id x \<noteq> col_id r) rows)"
    by auto
  ultimately show ?thesis by (simp add: insert_or_replace_def)
qed

text \<open>
  \<^verbatim>\<open>INSERT OR REPLACE\<close> on a table with pairwise distinct keys, when the statement
  succeeds.  With an integer id the table afterwards holds the new row and the old rows of
  other keys, so a row of the same key is replaced; with a NULL id the row is added under a
  fresh key; with an id that is not an integer the statement is refused and the table is
  as it was.  The keys stay pairwise distinct.
\<close>

theorem insert_or_replace_by_key:
  assumes "sql_ok e" and "parameters_of m = Inr p" and "distinct (map col_id rows)"
  shows "(key_of (p_id p) = Key k \<longrightarrow>
       fst (exec e (InsertOrReplace m) (Some rows)) = Inr []
       \<and> set (table_rows (snd (exec e (InsertOrReplace m) (Some rows))))
           = {x \<in> set rows. col_id x \<noteq> k} \<union> {with_id k p}
       \<and> distinct (map col_id (table_rows (snd (exec e (InsertOrReplace m) (Some rows))))))
    \<and> (key_of (p_id p) = AutoKey \<longrightarrow>
       fst (exec e (InsertOrReplace m) (Some rows)) = Inr []
       \<and> table_rows (snd (exec e (InsertOrReplace m) (Some rows)))
           = rows @ [with_id (next_rowid rows) p]
       \<and> distinct (map col_id (table_rows (snd (exec e (InsertOrReplace m) (Some rows))))))
    \<and> (key_of (p_id p) = Mismatch \<longrightarrow>
       exec e (InsertOrReplace m) (Some rows) = (Inl SqlRejection, Some rows))"
proof -
  have key: "fst (exec e (InsertOrReplace m) (Some rows)) = Inr []
       \<and> set (table_rows (snd (exec e (InsertOrReplace m) (Some rows))))
           = {x \<in> set rows. col_id x \<noteq> k} \<union> {with_id k p}
       \<and> distinct (map col_id (table_rows (snd (exec e (InsertOrReplace m) (Some rows)))))"
    if "key_of (p_id p) = Key k"
  proof -
    have "exec e (InsertOrReplace m) (Some rows) = (Inr [], Some (insert_or_replace (with_id k p) rows))"
      using assms(1,2) that by (simp add: table_rows_def)
    moreover have "set (insert_or_replace (with_id k p) rows)
        = {x \<in> set rows. col_id x \<noteq> k} \<union> {with_id k p}"
      by (auto simp: insert_or_replace_def with_id_def)
    ultimately show ?thesis
      using distinct_insert_or_replace [OF assms(3), of "with_id k p"] by (simp add: table_rows_def)
  qed
  have fresh: "fst (exec e (InsertOrReplace m) (Some rows)) = Inr []
       \<and> table_rows (snd (exec e (InsertOrReplace m) (Some rows)))
           = rows @ [with_id (next_rowid rows) p]
       \<and> distinct (map col_id (table_rows (snd (exec e (InsertOrReplace m) (Some rows)))))"
    if "key_of (p_id p) = AutoKey"
    using assms that next_rowid_fresh [of rows] by (simp add: table_rows_def with_id_def)
  have mismatch: "exec e (InsertOrReplace m) (Some rows) = (Inl SqlRejection, Some rows)"
    if "key_of (p_id p) = Mismatch"
    using assms(1,2) that by simp
  from key fresh mismatch show ?thesis by blast
qed

theorem insert_or_replace_by_key_witness:
  "exec with_sqlite (InsertOrReplace (reading 1 75)) (Some [reading_row 1 70])
     = (Inr [], Some [reading_row 1 75])
   \<and> table_rows (snd (exec with_sqlite (InsertOrReplace (JObj [(''metric_type'', JStr ''heart_rate'')]))
        (Some [reading_row 1 70])))
       = [reading_row 1 70, \<lparr>col_id = 2, col_metric_type = JStr ''heart_rate'', col_value = JNull,
            col_unit = JNull, col_recorded_at = JNull\<rparr>]
   \<and> exec with_sqlite (InsertOrReplace (reading (3 / 2) 75)) (Some [reading_row 1 70])
       = (Inl SqlRejection, Some [reading_row 1 70])"
proof -
  let ?p = "\<lambda>i v. \<lparr>p_id = i, p_metric_type = JStr ''heart_rate'', p_value = v,
      p_unit = JStr ''bpm'', p_recorded_at = JStr ''2026-01-01T00:00:00Z''\<rparr>"
  let ?q = "\<lparr>p_id = JNull, p_metric_type = JStr ''heart_rate'', p_value = JNull,
      p_unit = JNull, p_recorded_at = JNull\<rparr>"
  have ok: "sql_ok with_sqlite" by (simp add: with_sqlite_def)
  have d: "distinct (map col_id [reading_row 1 70])" by simp
  have p1: "parameters_of (reading 1 75) = Inr (?p (JNum 1) (JNum 75))"
    and p2: "parameters_of (JObj [(''metric_type'', JStr ''heart_rate'')]) = Inr ?q"
    and p3: "parameters_of (reading (3 / 2) 75) = Inr (?p (JNum (3 / 2)) (JNum 75))"
    by (simp_all add: parameters_of_def bound_def reading_def)
  have "exec with_sqlite (InsertOrReplace (reading 1 75)) (Some [reading_row 1 70])
     = (Inr [], Some [reading_row 1 75])"
    using ok p1 by (simp add: table_rows_def insert_or_replace_def with_id_def reading_row_def)
  moreover have "key_of (p_id ?q) = AutoKey"
    by simp
  with insert_or_replace_by_key [OF ok p2 d, of 0]
  have "table_rows (snd (exec with_sqlite (InsertOrReplace (JObj [(''metric_type'', JStr ''heart_rate'')]))
        (Some [reading_row 1 70])))
       = [reading_row 1 70] @ [with_id (next_rowid [reading_row 1 70]) ?q]"
    by blast
  then have "table_rows (snd (exec with_sqlite (InsertOrReplace (JObj [(''metric_type'', JStr ''heart_rate'')]))
        (Some [reading_row 1 70])))
       = [reading_row 1 70, \<lparr>col_id = 2, col_metric_type = JStr ''heart_rate'', col_value = JNull,
            col_unit = JNull, col_recorded_at = JNull\<rparr>]"
    by (simp add: next_rowid_def with_id_def reading_row_def)
  moreover have "key_of (p_id (?p (JNum (3 / 2)) (JNum 75))) = Mismatch"
    by code_simp
  with insert_or_replace_by_key [OF ok p3 d, of 0]
  have "exec with_sqlite (InsertOrReplace (reading (3 / 2) 75)) (Some [reading_row 1 70])
       = (Inl SqlRejection, Some [reading_row 1 70])"
    by blast
  ultimately show ?thesis by simp
qed

text \<open>
  On the memory backend \<^verbatim>\<open>addMetric\<close> puts the reading in front of the cache, with no
  look at its identity and no cap, and \<^verbatim>\<open>loadCachedMetrics\<close> with a limit that is
  not negative returns the first \<open>limit\<close> entries of the cache.
\<close>

theorem memory_addMetric_prepends:
  assumes "db s = Some MemoryDb"
  shows "addMetric e w m s = (Settled (Inr []), s\<lparr>memoryCache := m # memoryCache s\<rparr>)
    \<and> length (memoryCache (snd (addMetric e w m s))) = Suc (length (memoryCache s))
    \<and> (0 \<le> limit \<longrightarrow>
         fst (loadCachedMetrics e w limit s) = Settled (Inr (take (nat limit) (memoryCache s)))
         \<and> int (length (take (nat limit) (memoryCache s))) \<le> limit)"
proof -
  have add: "addMetric e w m s = (Settled (Inr []), s\<lparr>memoryCache := m # memoryCache s\<rparr>)"
    using assms by (simp add: addMetric_def ensure_db_def memory_addMetric_def)
  have load: "fst (loadCachedMetrics e w limit s) = Settled (Inr (take (nat limit) (memoryCache s)))"
    if "0 \<le> limit"
    using assms that by (simp add: loadCachedMetrics_with_handle(1) slice0_def)
  have bound: "int (length (take (nat limit) (memoryCache s))) \<le> limit" if "0 \<le> limit"
    using that by simp
  from add load bound show ?thesis by simp
qed

theorem memory_addMetric_prepends_witness:
  "memoryCache (snd (addMetric no_sqlite Detached (reading 1 75) cached_store))
     = [reading 1 75, reading 1 70]
   \<and> fst (loadCachedMetrics no_sqlite Detached 1 cached_store) = Settled (Inr [reading 1 70])"
proof -
  have c: "db cached_store = Some MemoryDb" "memoryCache cached_store = [reading 1 70]"
    by (simp_all add: cached_store_def)
  from memory_addMetric_prepends [OF c(1), of no_sqlite Detached "reading 1 75" 1] c(2)
  show ?thesis by simp
qed

text \<open>
  A refresh whose fetch succeeds, on the memory backend: when the fetch settles the view
  and the cache are both the fetched array, the sync error is as the start of the call
  left it, and the refresh is no longer loading.
\<close>

theorem refresh_success_mirrors:
  assumes "i < length (fetching s)" and "fetchLatestMetrics out = Inr latest"
    and "db (metricsStore s) = Some MemoryDb \<or> db (metricsStore s) = None \<and> \<not> sqlite_module e"
  shows "metrics (fetched e i out s) = latest
    \<and> memoryCache (metricsStore (fetched e i out s)) = latest
    \<and> metricsError (fetched e i out s) = metricsError s
    \<and> metricsLoading (fetched e i out s) = False"
proof -
  define s1 where "s1 = s\<lparr>fetching := remove_nth i (fetching s), metrics := latest\<rparr>"
  have h: "db (metricsStore s1) = Some MemoryDb \<or> db (metricsStore s1) = None \<and> \<not> sqlite_module e"
    using assms(3) by (simp add: s1_def)
  obtain r st where st: "storeMetrics e (RefreshStore (fetching s ! i)) latest (metricsStore s1) = (r, st)"
    by (cases "storeMetrics e (RefreshStore (fetching s ! i)) latest (metricsStore s1)")
  from storeMetrics_memory [OF h, of "RefreshStore (fetching s ! i)" latest] st
  have "memoryCache st = latest" "r = Settled (Inr [])" by simp_all
  with assms(1,2) st show ?thesis
    by (simp add: fetched_def Let_def s1_def stored_def)
qed

theorem refresh_success_mirrors_witness:
  "metrics (fetched no_sqlite 0 (HttpSuccess (Inr [reading 2 80]))
      (loadMetrics (Some ''token'') stale_screen)) = [reading 2 80]
   \<and> memoryCache (metricsStore (fetched no_sqlite 0 (HttpSuccess (Inr [reading 2 80]))
      (loadMetrics (Some ''token'') stale_screen))) = [reading 2 80]
   \<and> metricsLoading (fetched no_sqlite 0 (HttpSuccess (Inr [reading 2 80]))
      (loadMetrics (Some ''token'') stale_screen)) = False"
proof -
  let ?a = "loadMetrics (Some ''token'') stale_screen"
  have a: "0 < length (fetching ?a)"
    "db (metricsStore ?a) = Some MemoryDb \<or> db (metricsStore ?a) = None \<and> \<not> sqlite_module no_sqlite"
    by (simp_all add: loadMetrics_def stale_screen_def initial_screen_def cached_store_def)
  have out: "fetchLatestMetrics (HttpSuccess (Inr [reading 2 80])) = Inr [reading 2 80]"
    by simp
  from refresh_success_mirrors [OF a(1) out a(2)] show ?thesis by simp
qed

subsection \<open>Sequences of channel messages and the cap\<close>

lemma take_append_take: "take n (xs @ take n ys) = take n (xs @ ys)"
  by (simp add: min_def)

lemma deliver_incrementals:
  assumes "\<forall>m\<in>set ms. is_incremental m"
  shows "metrics (deliver e (map Json ms) s) = (if ms = [] then metrics s else take 50 (rev ms @ metrics s))"
  using assms
proof (induction ms arbitrary: s)
  case Nil
  then show ?case by simp
next
  case (Cons m ms)
  then have m: "is_incremental m" and rest: "\<forall>x\<in>set ms. is_incremental x" by simp_all
  have step: "metrics (onmessage e (Json m) s) = take 50 (m # metrics s)"
    using m by (simp add: onmessage_incremental)
  show ?case
  proof (cases "ms = []")
    case True
    with step show ?thesis by simp
  next
    case False
    have "metrics (deliver e (map Json (m # ms)) s) = take 50 (rev ms @ take 50 (m # metrics s))"
      using Cons.IH [OF rest, of "onmessage e (Json m) s"] False step by simp
    also have "\<dots> = take 50 (rev ms @ m # metrics s)"
      by (rule take_append_take)
    finally show ?thesis by simp
  qed
qed

text \<open>
  Claim C4, as the code has it.  After any sequence of single readings delivered to an
  empty view, the view is the last 50 of them, newest first (all of them while no more
  than 50 were delivered); it never has more than 50 entries, and its identities are
  pairwise distinct when the delivered ones are.  A snapshot message is not cut: it makes
  the view its array, whatever the length, and the readings delivered after it are put in
  front of that array, the whole cut to 50.
\<close>

theorem incremental_messages_view:
  assumes "\<forall>m\<in>set ms. is_incremental m"
  shows "metrics (deliver e (map Json ms) (initial_screen st)) = take 50 (rev ms)
    \<and> length (metrics (deliver e (map Json ms) (initial_screen st))) \<le> 50
    \<and> (distinct (map ident ms) \<longrightarrow>
         distinct (map ident (metrics (deliver e (map Json ms) (initial_screen st)))))
    \<and> (snapshot_data p = Some xs \<longrightarrow>
         metrics (deliver e (Json p # map Json ms) s) = (if ms = [] then xs else take 50 (rev ms @ xs)))"
proof -
  have view: "metrics (deliver e (map Json ms) (initial_screen st)) = take 50 (rev ms)"
    using deliver_incrementals [OF assms, of e "initial_screen st"]
    by (simp add: initial_screen_def)
  have dist: "distinct (map ident (take 50 (rev ms)))" if "distinct (map ident ms)"
    using that by (intro distinct_map_take) (simp add: rev_map [symmetric])
  have snap: "metrics (deliver e (Json p # map Json ms) s) = (if ms = [] then xs else take 50 (rev ms @ xs))"
    if "snapshot_data p = Some xs"
    using deliver_incrementals [OF assms, of e "onmessage e (Json p) s"] that
    by (simp add: onmessage_snapshot)
  from view dist snap show ?thesis by simp
qed

theorem incremental_messages_view_witness:
  "metrics (deliver no_sqlite (map Json [reading 1 70, reading 2 80]) (initial_screen fresh_store))
     = [reading 2 80, reading 1 70]
   \<and> distinct (map ident [reading 1 70, reading 2 80])
   \<and> distinct (map ident (metrics (deliver no_sqlite (map Json [reading 1 70, reading 2 80])
        (initial_screen fresh_store))))
   \<and> metrics (deliver no_sqlite (Json (snapshot_message [reading 3 90]) # map Json [reading 1 70, reading 2 80])
        stale_screen) = [reading 2 80, reading 1 70, reading 3 90]"
  using incremental_messages_view [of "[reading 1 70, reading 2 80]" no_sqlite fresh_store
      "snapshot_message [reading 3 90]" "[reading 3 90]" stale_screen]
  by (simp add: is_incremental_def snapshot_data_def snapshot_message_def reading_def ident_def)

text \<open>
  Claim C4 as stated fails: one snapshot message with 51 readings of pairwise distinct
  identities, delivered to an empty view, leaves a view of 51 entries.
\<close>

theorem snapshot_exceeds_cap:
  "distinct (map ident (map nth_reading [0..<51]))
   \<and> length (metrics (deliver no_sqlite [Json (snapshot_message (map nth_reading [0..<51]))]
        (initial_screen fresh_store))) = 51"
proof -
  have "distinct (map ident (map nth_reading [0..<51]))"
    by (simp add: distinct_map inj_on_def ident_def nth_reading_def reading_def)
  moreover have "snapshot_data (snapshot_message (map nth_reading [0..<51])) = Some (map nth_reading [0..<51])"
    by (simp add: snapshot_data_def snapshot_message_def)
  then have "metrics (deliver no_sqlite [Json (snapshot_message (map nth_reading [0..<51]))]
        (initial_screen fresh_store)) = map nth_reading [0..<51]"
    by (simp add: onmessage_snapshot)
  ultimately show ?thesis by simp
qed

subsection \<open>Malformed channel payloads\<close>

text \<open>
  Claim C5.  A frame that is not JSON, or whose JSON is neither a snapshot (a
  \<^verbatim>\<open>type\<close> member equal to \<^verbatim>\<open>'snapshot'\<close> with an array \<^verbatim>\<open>data\<close>) nor carries a
  truthy \<^verbatim>\<open>metric_type\<close> (in particular one with no such member, and \<^verbatim>\<open>null\<close>, on
  which the handler's property read throws), leaves the whole state of the screen as it
  was: the view, the store with its calls in flight, and every other field.  The handler
  returns a state and never an error: what its \<^verbatim>\<open>try\<close> block throws ends in the
  \<^verbatim>\<open>catch\<close>.
\<close>

theorem malformed_payload_ignored:
  assumes "fr = NotJson \<or> fr = Json p \<and> snapshot_data p = None \<and> \<not> truthy (optProp p ''metric_type'')"
  shows "onmessage e fr s = s"
  using assms
proof
  assume "fr = NotJson"
  then show ?thesis by (simp add: onmessage_def onmessage_try_def)
next
  assume h: "fr = Json p \<and> snapshot_data p = None \<and> \<not> truthy (optProp p ''metric_type'')"
  show ?thesis
  proof (cases "getProp p ''type''")
    case (Inl err)
    with h show ?thesis by (simp add: onmessage_def onmessage_try_def)
  next
    case (Inr t)
    with h show ?thesis by (simp add: onmessage_def onmessage_try_def)
  qed
qed

theorem malformed_payload_ignored_witness:
  "onmessage no_sqlite NotJson (initial_screen fresh_store) = initial_screen fresh_store
   \<and> onmessage no_sqlite (Json JNull) (initial_screen fresh_store) = initial_screen fresh_store
   \<and> onmessage no_sqlite (Json (JObj [(''type'', JStr ''snapshot''), (''data'', JNum 3)]))
        (initial_screen fresh_store) = initial_screen fresh_store
   \<and> onmessage no_sqlite (Json (JObj [(''id'', JNum 2), (''value'', JNum 85)]))
        (initial_screen fresh_store) = initial_screen fresh_store"
  using malformed_payload_ignored [of NotJson JNull no_sqlite "initial_screen fresh_store"]
    malformed_payload_ignored [of "Json JNull" JNull no_sqlite "initial_screen fresh_store"]
    malformed_payload_ignored [of "Json (JObj [(''type'', JStr ''snapshot''), (''data'', JNum 3)])"
      "JObj [(''type'', JStr ''snapshot''), (''data'', JNum 3)]" no_sqlite "initial_screen fresh_store"]
    malformed_payload_ignored [of "Json (JObj [(''id'', JNum 2), (''value'', JNum 85)])"
      "JObj [(''id'', JNum 2), (''value'', JNum 85)]" no_sqlite "initial_screen fresh_store"]
  by (simp add: snapshot_data_def)

subsection \<open>Media-device failures and the advisory message\<close>

text \<open>
  Claim C7, as the code has it.  A media-device failure leaves the connection state as
  it is and changes at most the advisory message, and nothing at all when the callback is
  given no failure; a permission-denied failure sets the permission-denied text, so in
  state connected the state stays connected with that text.  The disconnect, connect
  and transport-error callbacks leave the advisory message as it is.  It is
  \<^verbatim>\<open>retryConnect\<close>, the operator's reconnect, that clears it, at the moment it is
  triggered and while the state it sets is still connecting.
\<close>

theorem media_failure_sets_only_advisory:
  "connectionState (onMediaDeviceFailure f s) = connectionState s
   \<and> onMediaDeviceFailure None s = s
   \<and> onMediaDeviceFailure f s = s\<lparr>mediaErrorMessage := mediaErrorMessage (onMediaDeviceFailure f s)\<rparr>
   \<and> mediaErrorMessage (onMediaDeviceFailure (Some PermissionDenied) s) = Some permission_denied_text
   \<and> connectionState (onMediaDeviceFailure (Some PermissionDenied) (onConnected s)) = Connected
   \<and> connectionState (onDisconnected s) = Disconnected
   \<and> mediaErrorMessage (onDisconnected s) = mediaErrorMessage s
   \<and> mediaErrorMessage (onConnected s) = mediaErrorMessage s
   \<and> mediaErrorMessage (onError msg s) = mediaErrorMessage s
   \<and> mediaErrorMessage (retryConnect s) = None
   \<and> connectionState (retryConnect s) = Connecting"
proof -
  have frame: "onMediaDeviceFailure f s = s\<lparr>mediaErrorMessage := mediaErrorMessage (onMediaDeviceFailure f s)\<rparr>"
    by (cases f) (simp_all add: onMediaDeviceFailure_def)
  have state: "connectionState (onMediaDeviceFailure g t) = connectionState t" for g t
    by (cases g) (simp_all add: onMediaDeviceFailure_def)
  have denied: "mediaErrorMessage (onMediaDeviceFailure (Some PermissionDenied) s) = Some permission_denied_text"
    by (simp add: onMediaDeviceFailure_def)
  have others: "connectionState (onDisconnected s) = Disconnected"
    "mediaErrorMessage (onDisconnected s) = mediaErrorMessage s"
    "mediaErrorMessage (onConnected s) = mediaErrorMessage s"
    "mediaErrorMessage (onError msg s) = mediaErrorMessage s"
    "mediaErrorMessage (retryConnect s) = None"
    "connectionState (retryConnect s) = Connecting"
    by (simp_all add: onDisconnected_def onConnected_def onError_def retryConnect_def)
  have conn: "connectionState (onConnected s) = Connected"
    by (simp add: onConnected_def)
  have stays: "connectionState (onMediaDeviceFailure (Some PermissionDenied) (onConnected s)) = Connected"
    using state conn by simp
  have absent: "onMediaDeviceFailure None s = s"
    by (simp add: onMediaDeviceFailure_def)
  from state [of f s] absent frame denied stays others show ?thesis by blast
qed

text \<open>
  Claim C7 as stated fails in its last part.  From state connected, after a
  permission-denied failure and a disconnect, a connect success does not clear the
  advisory message; and the retry clears it while the state is connecting, before any
  reconnect has succeeded.  So it does where the button is offered: after a
  permission-denied failure and a transport error the advisory message is still there,
  the retry is offered, and pressing it leaves state connecting with no advisory message.
\<close>

theorem advisory_cleared_by_retry_not_by_connect:
  "mediaErrorMessage (onConnected (onDisconnected (onMediaDeviceFailure (Some PermissionDenied)
      (onConnected (initial_screen fresh_store))))) = Some permission_denied_text
   \<and> connectionState (retryConnect (onDisconnected (onMediaDeviceFailure (Some PermissionDenied)
      (onConnected (initial_screen fresh_store))))) = Connecting
   \<and> mediaErrorMessage (retryConnect (onDisconnected (onMediaDeviceFailure (Some PermissionDenied)
      (onConnected (initial_screen fresh_store))))) = None
   \<and> mediaErrorMessage (onError ''timeout'' (onMediaDeviceFailure (Some PermissionDenied)
      (onConnected (initial_screen fresh_store)))) = Some permission_denied_text
   \<and> retry_offered (onError ''timeout'' (onMediaDeviceFailure (Some PermissionDenied)
      (onConnected (initial_screen fresh_store))))
   \<and> connectionState (handle Retry (onError ''timeout'' (onMediaDeviceFailure (Some PermissionDenied)
      (onConnected (initial_screen fresh_store))))) = Connecting
   \<and> mediaErrorMessage (handle Retry (onError ''timeout'' (onMediaDeviceFailure (Some PermissionDenied)
      (onConnected (initial_screen fresh_store))))) = None"
  by (simp add: onConnected_def onDisconnected_def onMediaDeviceFailure_def retryConnect_def
      onError_def retry_offered_def initial_screen_def)

subsection \<open>Transitions of the session state\<close>

text \<open>
  Claim C8, as the code has it.  The callbacks do not look at the current state: a
  connect success sets connected, a disconnect sets disconnected and a transport error
  sets error, from whichever state; media failures and diagnostics keep the state.  The
  retry button, offered only in state error with a non-empty message, sets connecting
  and adds one to the attempt key, and nothing else changes the key or enters
  connecting.  No step reaches a state corresponding to the specification's degraded.
\<close>

theorem session_transitions:
  "connectionState (handle ev s) =
     (case ev of
        ConnectSuccess \<Rightarrow> Connected
      | Disconnect \<Rightarrow> Disconnected
      | TransportError m \<Rightarrow> Error
      | MediaFailure f \<Rightarrow> connectionState s
      | Diagnostics f c \<Rightarrow> connectionState s
      | Retry \<Rightarrow> if retry_offered s then Connecting else connectionState s)
   \<and> connectKey (handle ev s) = (if ev = Retry \<and> retry_offered s then connectKey s + 1 else connectKey s)
   \<and> (connectionState (handle ev s) = Connecting \<longrightarrow>
        connectionState s = Connecting \<or> ev = Retry \<and> connectionState s = Error)
   \<and> spec_state (connectionState (handle ev s)) \<noteq> SDegraded"
proof (cases ev)
  case (MediaFailure f)
  then show ?thesis
    by (cases f; cases "connectionState s") (simp_all add: onMediaDeviceFailure_def)
next
  case Retry
  then show ?thesis
    by (cases "connectionState s") (simp_all add: retryConnect_def retry_offered_def)
next
  case (Diagnostics f c)
  then show ?thesis
    by (cases "connectionState s") (simp_all add: onMessage_def)
qed (simp_all add: onConnected_def onDisconnected_def onError_def)

theorem session_transitions_witness:
  "connectionState (handle Retry (onError ''timeout'' (initial_screen fresh_store))) = Connecting
   \<and> connectionState (onError ''timeout'' (initial_screen fresh_store)) = Error
   \<and> connectKey (handle Retry (onError ''timeout'' (initial_screen fresh_store))) = 1
   \<and> connectionState (handle Retry (onDisconnected (initial_screen fresh_store))) = Disconnected"
  using session_transitions [of Retry "onError ''timeout'' (initial_screen fresh_store)"]
    session_transitions [of Retry "onDisconnected (initial_screen fresh_store)"]
  by (simp add: retry_offered_def onError_def onDisconnected_def initial_screen_def)

text \<open>
  Claim C8 as stated fails: a disconnect that arrives while the session is connecting
  (the case the handler's message, "Disconnected before media negotiation completed.",
  names) takes connecting to disconnected, which is not a transition of the
  specification.
\<close>

theorem disconnect_while_connecting:
  "\<not> spec_allows Disconnect (initial_screen fresh_store) (handle Disconnect (initial_screen fresh_store))"
  by (simp add: spec_allows_def spec_transition_def onDisconnected_def initial_screen_def)

subsection \<open>The message of a failed fetch\<close>

text \<open>
  Claim C6, evaluated on two error replies with a JSON body.  \<^verbatim>\<open>fetchLatestMetrics\<close>
  fails with the whole text of the body as its message; \<^verbatim>\<open>requestToken\<close>, on the same
  bodies, takes the \<^verbatim>\<open>detail\<close> string and the \<^verbatim>\<open>msg\<close> of the first element of the
  \<^verbatim>\<open>detail\<close> array.
\<close>

theorem fetchLatestMetrics_keeps_json_body:
  "fetchLatestMetrics (HttpFailure unauthorized_body (Some unauthorized_json))
     = Inl (JsError unauthorized_body)
   \<and> requestToken_message unauthorized_body (Some unauthorized_json) = JStr ''Not authenticated''
   \<and> fetchLatestMetrics (HttpFailure invalid_body (Some invalid_json)) = Inl (JsError invalid_body)
   \<and> requestToken_message invalid_body (Some invalid_json) = JStr ''value is not a valid integer''
   \<and> unauthorized_body \<noteq> ''Not authenticated''
   \<and> invalid_body \<noteq> ''value is not a valid integer''"
  by (simp add: requestToken_message_def unauthorized_body_def unauthorized_json_def
      invalid_body_def invalid_json_def)

end
